theory Spec2Isabelle
  imports Main
begin

section \<open>JavaScript values\<close>

text \<open>
  The scan screen and the API client of GlutenPeek handle data typed \<open>any\<close>: bodies
  of HTTP replies, the Open Food Facts record, the object the classifier's answer is
  parsed into. Such data is a \<open>jsval\<close>. JSON numbers are modelled by integers (the
  program only compares them with \<open>0\<close> and tests their truthiness); text is a list
  of 8-bit characters.
\<close>

datatype jsval =
    JUndefined
  | JNull
  | JBool bool
  | JNum int
  | JStr string
  | JArr "jsval list"
  | JObj "(string \<times> jsval) list"

text \<open>Truthiness, as \<open>if (v)\<close>, \<open>!v\<close> and \<open>a || b\<close> read it.\<close>

fun js_truthy :: "jsval \<Rightarrow> bool" where
  "js_truthy JUndefined = False"
| "js_truthy JNull = False"
| "js_truthy (JBool b) = b"
| "js_truthy (JNum n) = (n \<noteq> 0)"
| "js_truthy (JStr s) = (s \<noteq> [])"
| "js_truthy (JArr xs) = True"
| "js_truthy (JObj kvs) = True"

definition js_or :: "jsval \<Rightarrow> jsval \<Rightarrow> jsval" where
  "js_or a b = (if js_truthy a then a else b)"

fun js_nullish :: "jsval \<Rightarrow> bool" where
  "js_nullish JUndefined = True"
| "js_nullish JNull = True"
| "js_nullish v = False"

text \<open>
  \<open>v.k\<close> on a receiver that is neither \<open>null\<close> nor \<open>undefined\<close> (on those the
  access throws a TypeError, which every caller below writes out). Only own properties
  of parsed JSON are modelled: none of the names the program reads is a built-in
  property of strings, numbers, booleans or arrays.
\<close>

fun js_prop :: "jsval \<Rightarrow> string \<Rightarrow> jsval" where
  "js_prop (JObj kvs) k = (case map_of kvs k of Some v \<Rightarrow> v | None \<Rightarrow> JUndefined)"
| "js_prop v k = JUndefined"

text \<open>\<open>v[0]\<close> on a receiver that is neither \<open>null\<close> nor \<open>undefined\<close>.\<close>

fun js_index0 :: "jsval \<Rightarrow> jsval" where
  "js_index0 (JArr xs) = (case xs of [] \<Rightarrow> JUndefined | x # _ \<Rightarrow> x)"
| "js_index0 (JStr s) = (case s of [] \<Rightarrow> JUndefined | c # _ \<Rightarrow> JStr [c])"
| "js_index0 (JObj kvs) = (case map_of kvs ''0'' of Some v \<Rightarrow> v | None \<Rightarrow> JUndefined)"
| "js_index0 v = JUndefined"

text \<open>Optional chaining: \<open>v?.k\<close> and \<open>v?.[0]\<close>.\<close>

definition js_opt_prop :: "jsval \<Rightarrow> string \<Rightarrow> jsval" where
  "js_opt_prop v k = (if js_nullish v then JUndefined else js_prop v k)"

definition js_opt_index0 :: "jsval \<Rightarrow> jsval" where
  "js_opt_index0 v = (if js_nullish v then JUndefined else js_index0 v)"

text \<open>
  \<open>a === b\<close> between values that come from different sources: primitives are compared
  by value, two separately built arrays or objects are never the same object.
\<close>

fun js_strict_eq :: "jsval \<Rightarrow> jsval \<Rightarrow> bool" where
  "js_strict_eq (JArr xs) b = False"
| "js_strict_eq (JObj kvs) b = False"
| "js_strict_eq a b = (a = b)"

text \<open>Decimal digits of a number, for template literals.\<close>

fun digits :: "nat \<Rightarrow> string" where
  "digits n = (if n < 10 then [''0123456789'' ! n]
               else digits (n div 10) @ [''0123456789'' ! (n mod 10)])"

definition show_int :: "int \<Rightarrow> string" where
  "show_int i = (if i < 0 then CHR ''-'' # digits (nat (- i)) else digits (nat i))"

fun intercalate :: "string \<Rightarrow> string list \<Rightarrow> string" where
  "intercalate sep [] = []"
| "intercalate sep [x] = x"
| "intercalate sep (x # y # ys) = x @ sep @ intercalate sep (y # ys)"

text \<open>The string a template literal \<open>`${v}`\<close> inserts for a value.\<close>

fun js_ToString :: "jsval \<Rightarrow> string" where
  "js_ToString JUndefined = ''undefined''"
| "js_ToString JNull = ''null''"
| "js_ToString (JBool b) = (if b then ''true'' else ''false'')"
| "js_ToString (JNum n) = show_int n"
| "js_ToString (JStr s) = s"
| "js_ToString (JArr xs) =
     intercalate '','' (map (\<lambda>x. if js_nullish x then [] else js_ToString x) xs)"
| "js_ToString (JObj kvs) = ''[object Object]''"

text \<open>
  What a \<open>catch\<close> can receive: an \<open>Error\<close>, by its message, or the
  \<open>ProgressEvent\<close> a failed \<open>FileReader\<close> rejects with (not an \<open>Error\<close>, and
  without a \<open>message\<close>). The messages of the engine's own TypeErrors are those of V8;
  no result below depends on their wording.
\<close>

datatype exn = Error string | ProgressEvent

text \<open>\<open>(error as Error).message\<close>\<close>

fun exn_message :: "exn \<Rightarrow> jsval" where
  "exn_message (Error m) = JStr m"
| "exn_message ProgressEvent = JUndefined"

text \<open>\<open>error instanceof Error ? error.message : dflt\<close>\<close>

fun message_or :: "exn \<Rightarrow> string \<Rightarrow> string" where
  "message_or (Error m) dflt = m"
| "message_or ProgressEvent dflt = dflt"

definition TypeError_read :: "string \<Rightarrow> string \<Rightarrow> exn" where
  "TypeError_read what k =
     Error (''Cannot read properties of '' @ what @ '' (reading '' @ [CHR 0x27] @ k @ [CHR 0x27] @ '')'')"

definition TypeError_not_function :: "string \<Rightarrow> exn" where
  "TypeError_not_function what = Error (what @ '' is not a function'')"

section \<open>Regular expressions\<close>

text \<open>
  The regular expressions of \<open>api.ts\<close> are run by a backtracking matcher that follows
  ECMAScript: \<open>rx_run r s\<close> lists, in the order the engine tries them, the ways \<open>r\<close>
  matches a prefix of \<open>s\<close>, each as the text of capture group 1 (if the group took
  part) and the input left over. A greedy star tries one more iteration before it tries
  to stop, a lazy star the other way round; an iteration that consumes nothing is
  rejected.
\<close>

datatype rx =
    Chars "char \<Rightarrow> bool"
  | Eps
  | Seq rx rx
  | Alt rx rx
  | Star rx
  | LazyStar rx
  | Cap rx

function rx_run :: "rx \<Rightarrow> string \<Rightarrow> (string option \<times> string) list" where
  "rx_run (Chars P) s = (case s of [] \<Rightarrow> [] | c # cs \<Rightarrow> if P c then [(None, cs)] else [])"
| "rx_run Eps s = [(None, s)]"
| "rx_run (Seq a b) s =
     concat (map (\<lambda>(c1, s1).
                    map (\<lambda>(c2, s2). (case c2 of None \<Rightarrow> c1 | Some g \<Rightarrow> Some g, s2))
                        (rx_run b s1))
                 (rx_run a s))"
| "rx_run (Alt a b) s = rx_run a s @ rx_run b s"
| "rx_run (Star a) s =
     concat (map (\<lambda>(c1, s1). if length s1 < length s then rx_run (Star a) s1 else [])
                 (rx_run a s))
     @ [(None, s)]"
| "rx_run (LazyStar a) s =
     (None, s) #
     concat (map (\<lambda>(c1, s1). if length s1 < length s then rx_run (LazyStar a) s1 else [])
                 (rx_run a s))"
| "rx_run (Cap a) s =
     map (\<lambda>(c1, s1). (Some (take (length s - length s1) s), s1)) (rx_run a s)"
  by pat_completeness auto
termination
  by (relation "inv_image (less_than <*lex*> less_than) (\<lambda>(r, s). (size r, length s))") auto

text \<open>
  \<open>text.match(r)\<close> for a regular expression without the \<open>g\<close> flag: the leftmost
  position where \<open>r\<close> matches, and there the first way it matches. The result is
  \<open>match[0]\<close> and \<open>match[1]\<close>; \<open>None\<close> is \<open>null\<close>.
\<close>

fun rx_exec :: "rx \<Rightarrow> string \<Rightarrow> (string \<times> string option) option" where
  "rx_exec r [] = (case rx_run r [] of [] \<Rightarrow> None | (c, rest) # _ \<Rightarrow> Some ([], c))"
| "rx_exec r (x # xs) =
     (case rx_run r (x # xs) of
        [] \<Rightarrow> rx_exec r xs
      | (c, rest) # _ \<Rightarrow> Some (take (length (x # xs) - length rest) (x # xs), c))"

definition rx_test :: "rx \<Rightarrow> string \<Rightarrow> bool" where
  "rx_test r s = (rx_exec r s \<noteq> None)"

text \<open>\<open>s.replace(r, '')\<close> for a regular expression with the \<open>g\<close> flag.\<close>

function rx_remove_all :: "rx \<Rightarrow> string \<Rightarrow> string" where
  "rx_remove_all r s =
     (case rx_run r s of
        (c, rest) # _ \<Rightarrow>
          if length rest < length s then rx_remove_all r rest
          else (case s of [] \<Rightarrow> [] | x # xs \<Rightarrow> x # rx_remove_all r xs)
      | [] \<Rightarrow> (case s of [] \<Rightarrow> [] | x # xs \<Rightarrow> x # rx_remove_all r xs))"
  by pat_completeness auto
termination
  by (relation "measure (\<lambda>(r, s). length s)") auto

text \<open>The pieces the program's expressions are built from.\<close>

fun lit :: "string \<Rightarrow> rx" where
  "lit [] = Eps"
| "lit (c # cs) = Seq (Chars (\<lambda>x. x = c)) (lit cs)"

definition ascii_upper :: "char \<Rightarrow> char" where
  "ascii_upper c =
     (case map_of (zip ''abcdefghijklmnopqrstuvwxyz'' ''ABCDEFGHIJKLMNOPQRSTUVWXYZ'') c of
        Some u \<Rightarrow> u | None \<Rightarrow> c)"

text \<open>A literal under the \<open>i\<close> flag.\<close>

fun lit_ci :: "string \<Rightarrow> rx" where
  "lit_ci [] = Eps"
| "lit_ci (c # cs) = Seq (Chars (\<lambda>x. ascii_upper x = ascii_upper c)) (lit_ci cs)"

definition newline :: char where
  "newline = CHR 0x0A"

definition backticks :: string where
  "backticks = [CHR 0x60, CHR 0x60, CHR 0x60]"

text \<open>\<open>\s\<close>, and what \<open>trim()\<close> strips: tab, LF, VT, FF, CR, space, NBSP.\<close>

definition is_space :: "char \<Rightarrow> bool" where
  "is_space c = (c \<in> set [CHR 0x09, CHR 0x0A, CHR 0x0B, CHR 0x0C, CHR 0x0D, CHR 0x20, CHR 0xA0])"

definition js_trim :: "string \<Rightarrow> string" where
  "js_trim s = rev (dropWhile is_space (rev (dropWhile is_space s)))"

definition rx_any :: rx where
  "rx_any = Chars (\<lambda>c. True)"

definition rx_space :: rx where
  "rx_space = Chars is_space"

definition rx_not_newline :: rx where
  "rx_not_newline = Chars (\<lambda>c. c \<noteq> newline)"

definition rx_opt :: "rx \<Rightarrow> rx" where
  "rx_opt r = Alt r Eps"

definition rx_plus :: "rx \<Rightarrow> rx" where
  "rx_plus r = Seq r (Star r)"

section \<open>The data of the scan screen and the API client\<close>

text \<open>
  Field names follow the TypeScript sources; a prefix tells apart fields that share a
  name there (\<open>status\<close> is an HTTP status code in \<open>ApiResponse\<close>, an object in
  \<open>ProductInScan\<close>, and a label inside that object).
\<close>

record ApiResponse =
  data :: jsval
  error :: jsval
  status :: int

text \<open>
  What a call of \<open>fetch\<close> comes back with: it rejects with an \<open>Error\<close>, or it
  resolves to a response with a status code, a status text and a body, whose
  \<open>json()\<close> either rejects (\<open>Inl\<close>, the message) or yields a value.
\<close>

datatype fetch_outcome =
    FetchThrows string
  | Response int string "string + jsval"

definition response_ok :: "int \<Rightarrow> bool" where
  "response_ok st = (200 \<le> st \<and> st \<le> 299)"

record status_obj =
  st_status :: string
  st_explanation :: "string option"

record ProductInScan =
  p_barcode :: string
  p_name :: string
  p_ingredients :: string
  p_createdAt :: string
  p_status :: "status_obj option"

record geminiPayload =
  productName :: string
  ingredients :: string
  currentStatus :: "string option"

record statusUpdatePayload =
  su_status :: jsval
  su_explanation :: jsval

record productPayload =
  pp_barcode :: string
  pp_name :: jsval
  pp_ingredients :: jsval
  pp_pictureUrl :: jsval

record CreateScanData =
  productBarcode :: string
  date :: string
  symptoms :: "string list"

record File =
  f_name :: string
  f_type :: string
  f_size :: int

datatype request =
    GeminiGenerateContent
  | OffGetProduct string
  | ProductsPost productPayload string
  | ScansPost CreateScanData string
  | StatusPatch string statusUpdatePayload string

datatype s3_outcome =
    PutOk
  | PutFails "int option" "string option"

text \<open>
  What a handler does besides returning: the notifications it shows (title, description,
  whether the variant is destructive), the React state it sets, the collaborators it
  calls and the HTTP exchanges it makes, in the order of the source. Console output and
  the display time of a notification are left out.
\<close>

datatype event =
    Toast string jsval bool
  | SetIsScanning bool
  | SetShowUploadModal bool
  | SetUploadedImages "File list"
  | SetCurrentBarcodeForUpload "string option"
  | ClassifierCall geminiPayload
  | ExtractorCall "string list" string
  | ObjectStoreCall File string
  | Fetch request fetch_outcome
  | S3Put string File s3_outcome
  | RecordScan CreateScanData
  | InvalidateQueries "string list"

text \<open>
  The surroundings of one run: the clock, the configuration, the library functions the
  program calls (\<open>Date\<close> parsing, \<open>JSON.parse\<close>, the file reader, \<open>uuidv4\<close>) and
  what each remote service answers. \<open>now\<close> is the clock in milliseconds since the
  epoch and \<open>nowISO\<close> its ISO text; \<open>Date_parse\<close> gives the milliseconds of a date
  string, \<open>None\<close> for an invalid date; \<open>LocalTZA t isUTC\<close> is the offset of the local
  time zone in milliseconds, at the UTC instant \<open>t\<close> where \<open>isUTC\<close> holds and at the
  local time \<open>t\<close> otherwise; \<open>JSON_parse\<close> gives \<open>None\<close> where it throws;
  \<open>readAsDataURL\<close> gives \<open>None\<close> where the reader fails.
\<close>

record env =
  now :: int
  nowISO :: string
  Date_parse :: "string \<Rightarrow> int option"
  LocalTZA :: "int \<Rightarrow> bool \<Rightarrow> int"
  JSON_parse :: "string \<Rightarrow> jsval option"
  GEMINI_API_KEY :: "string option"
  S3_BUCKET_NAME :: "string option"
  S3_REGION :: "string option"
  S3_ACCESS_KEY_ID :: "string option"
  S3_SECRET_ACCESS_KEY :: "string option"
  S3_PUBLIC_URL :: "string option"
  uuidv4 :: string
  readAsDataURL :: "File \<Rightarrow> string option"
  reply_classifier :: fetch_outcome
  reply_extractor :: fetch_outcome
  reply_off :: fetch_outcome
  reply_products :: fetch_outcome
  reply_status :: fetch_outcome
  reply_scans :: fetch_outcome
  reply_s3 :: s3_outcome

text \<open>Truthiness of a value typed \<open>string | null | undefined\<close>.\<close>

fun str_truthy :: "string option \<Rightarrow> bool" where
  "str_truthy None = False"
| "str_truthy (Some s) = (s \<noteq> [])"

section \<open>The API client (api.ts)\<close>

definition handleApiError :: "int \<Rightarrow> string \<Rightarrow> string + jsval \<Rightarrow> ApiResponse" where
  "handleApiError st statusText body =
     (case body of
        Inr errorData \<Rightarrow>
          if js_nullish errorData
          then \<lparr>data = JUndefined,
                error = JStr (''API error: '' @ show_int st @ '' '' @ statusText), status = st\<rparr>
          else \<lparr>data = JUndefined,
                error = js_or (js_prop errorData ''message'')
                          (js_or (js_prop errorData ''error'') (JStr (''API error: '' @ show_int st))),
                status = st\<rparr>
      | Inl m \<Rightarrow>
          \<lparr>data = JUndefined,
           error = JStr (''API error: '' @ show_int st @ '' '' @ statusText), status = st\<rparr>)"

definition apiFetch :: "fetch_outcome \<Rightarrow> ApiResponse" where
  "apiFetch outcome =
     (case outcome of
        FetchThrows m \<Rightarrow> \<lparr>data = JUndefined, error = JStr m, status = 0\<rparr>
      | Response st statusText body \<Rightarrow>
          if \<not> response_ok st then handleApiError st statusText body
          else (case body of
                  Inl m \<Rightarrow> \<lparr>data = JUndefined, error = JStr m, status = 0\<rparr>
                | Inr d \<Rightarrow> \<lparr>data = d, error = JUndefined, status = st\<rparr>))"

definition productApi_createProduct ::
    "env \<Rightarrow> productPayload \<Rightarrow> string \<Rightarrow> ApiResponse \<times> event list" where
  "productApi_createProduct e productData tok =
     (apiFetch (reply_products e), [Fetch (ProductsPost productData tok) (reply_products e)])"

definition scanApi_recordScan ::
    "env \<Rightarrow> CreateScanData \<Rightarrow> string \<Rightarrow> ApiResponse \<times> event list" where
  "scanApi_recordScan e scanData tok =
     (apiFetch (reply_scans e), [Fetch (ScansPost scanData tok) (reply_scans e)])"

definition statusApi_updateProductStatus ::
    "env \<Rightarrow> string \<Rightarrow> statusUpdatePayload \<Rightarrow> string \<Rightarrow> ApiResponse \<times> event list" where
  "statusApi_updateProductStatus e barcode statusData tok =
     (apiFetch (reply_status e), [Fetch (StatusPatch barcode statusData tok) (reply_status e)])"

definition openFoodFactsApi_getProduct :: "env \<Rightarrow> string \<Rightarrow> ApiResponse \<times> event list" where
  "openFoodFactsApi_getProduct e barcode =
     (apiFetch (reply_off e), [Fetch (OffGetProduct barcode) (reply_off e)])"

subsection \<open>The regular expressions of the Gemini helpers\<close>

text \<open>\<^verbatim>\<open>/```json\n([\s\S]*?)\n```/\<close>\<close>

definition RE_json_block :: rx where
  "RE_json_block =
     Seq (lit (backticks @ ''json'' @ [newline]))
       (Seq (Cap (LazyStar rx_any)) (lit (newline # backticks)))"

text \<open>\<^verbatim>\<open>/```\n([\s\S]*?)\n```/\<close>\<close>

definition RE_code_block :: rx where
  "RE_code_block =
     Seq (lit (backticks @ [newline]))
       (Seq (Cap (LazyStar rx_any)) (lit (newline # backticks)))"

text \<open>\<^verbatim>\<open>/{[\s\S]*?}/\<close>\<close>

definition RE_braces :: rx where
  "RE_braces = Seq (lit ''{'') (Seq (LazyStar rx_any) (lit ''}''))"

text \<open>\<^verbatim>\<open>/```json\n|```\n|```/g\<close>\<close>

definition RE_fence_marks :: rx where
  "RE_fence_marks =
     Alt (lit (backticks @ ''json'' @ [newline]))
       (Alt (lit (backticks @ [newline])) (lit backticks))"

definition rx_dash_or_space :: rx where
  "rx_dash_or_space = Chars (\<lambda>c. c = CHR ''-'' \<or> c = CHR '' '')"

text \<open>\<^verbatim>\<open>/gluten[- ]free/i\<close>\<close>

definition RE_gluten_free :: rx where
  "RE_gluten_free = Seq (lit_ci ''gluten'') (Seq rx_dash_or_space (lit_ci ''free''))"

text \<open>\<^verbatim>\<open>/not gluten[- ]free/i\<close>\<close>

definition RE_not_gluten_free :: rx where
  "RE_not_gluten_free =
     Seq (lit_ci ''not gluten'') (Seq rx_dash_or_space (lit_ci ''free''))"

text \<open>\<^verbatim>\<open>/contains gluten|has gluten|gluten[- ]containing/i\<close>\<close>

definition RE_contains_gluten :: rx where
  "RE_contains_gluten =
     Alt (lit_ci ''contains gluten'')
       (Alt (lit_ci ''has gluten'')
          (Seq (lit_ci ''gluten'') (Seq rx_dash_or_space (lit_ci ''containing''))))"

text \<open>\<^verbatim>\<open>([^\n]+(?:\n[^\n]+)*)\<close>\<close>

definition rx_lines :: rx where
  "rx_lines =
     Cap (Seq (rx_plus rx_not_newline) (Star (Seq (lit [newline]) (rx_plus rx_not_newline))))"

text \<open>
  \<^verbatim>\<open>/explanation:?\s*([^\n]+(?:\n[^\n]+)*)/i\<close>, and the same with
  \<open>analysis\<close>, \<open>assessment\<close> and \<open>Ingredients\<close> for the first word.
\<close>

definition RE_labelled_lines :: "string \<Rightarrow> rx" where
  "RE_labelled_lines word =
     Seq (lit_ci word) (Seq (rx_opt (lit '':'')) (Seq (Star rx_space) rx_lines))"

text \<open>\<^verbatim>\<open>/Product name:?\s*([^\n]+)/i\<close> and \<^verbatim>\<open>/Name:?\s*([^\n]+)/i\<close>\<close>

definition RE_labelled_line :: "string \<Rightarrow> rx" where
  "RE_labelled_line word =
     Seq (lit_ci word)
       (Seq (rx_opt (lit '':'')) (Seq (Star rx_space) (Cap (rx_plus rx_not_newline))))"

text \<open>\<open>a || b\<close> on the results of \<open>match\<close>.\<close>

definition match_or ::
    "(string \<times> string option) option \<Rightarrow> (string \<times> string option) option
       \<Rightarrow> (string \<times> string option) option" where
  "match_or a b = (case a of Some m \<Rightarrow> Some m | None \<Rightarrow> b)"

subsection \<open>extractGlutenInfoFromText and extractProductInfoFromGeminiResponse\<close>

record glutenInfo =
  gi_glutenFreeStatus :: string
  gi_explanation :: string

text \<open>
  \<open>m && m[1].trim()\<close> followed by the assignment of \<open>m[1].trim()\<close>: the new value of
  the field, if any. Reading \<open>trim\<close> of a group that took no part throws.
\<close>

definition trimmed_group ::
    "(string \<times> string option) option \<Rightarrow> exn + string option" where
  "trimmed_group m =
     (case m of
        None \<Rightarrow> Inr None
      | Some (m0, None) \<Rightarrow> Inl (TypeError_read ''undefined'' ''trim'')
      | Some (m0, Some g) \<Rightarrow> Inr (if js_trim g \<noteq> [] then Some (js_trim g) else None))"

definition extractGlutenInfoFromText :: "string \<Rightarrow> exn + glutenInfo" where
  "extractGlutenInfoFromText t =
     (let st = (if rx_test RE_gluten_free t \<and> \<not> rx_test RE_not_gluten_free t
                then ''gluten-free''
                else if rx_test RE_contains_gluten t then ''contains-gluten''
                else ''unknown'');
          explanationMatch =
            match_or (rx_exec (RE_labelled_lines ''explanation'') t)
              (match_or (rx_exec (RE_labelled_lines ''analysis'') t)
                 (rx_exec (RE_labelled_lines ''assessment'') t))
      in case trimmed_group explanationMatch of
           Inl ex \<Rightarrow> Inl ex
         | Inr None \<Rightarrow>
             Inr \<lparr>gi_glutenFreeStatus = st,
                  gi_explanation = ''Unable to determine from AI response''\<rparr>
         | Inr (Some x) \<Rightarrow> Inr \<lparr>gi_glutenFreeStatus = st, gi_explanation = x\<rparr>)"

record productInfo =
  pi_name :: string
  pi_ingredients :: string

definition extractProductInfoFromGeminiResponse :: "string \<Rightarrow> exn + productInfo" where
  "extractProductInfoFromGeminiResponse t =
     (let nameMatch =
            match_or (rx_exec (RE_labelled_line ''Product name'') t)
              (rx_exec (RE_labelled_line ''Name'') t);
          ingredientsMatch = rx_exec (RE_labelled_lines ''Ingredients'') t
      in case trimmed_group nameMatch of
           Inl ex \<Rightarrow> Inl ex
         | Inr n \<Rightarrow>
             (case trimmed_group ingredientsMatch of
                Inl ex \<Rightarrow> Inl ex
              | Inr i \<Rightarrow>
                  Inr \<lparr>pi_name = (case n of Some x \<Rightarrow> x | None \<Rightarrow> ''Unknown Product''),
                       pi_ingredients = (case i of Some x \<Rightarrow> x | None \<Rightarrow> [])\<rparr>))"

subsection \<open>geminiApi\<close>

text \<open>\<open>data.candidates?.[0]?.content?.parts?.[0]?.text || ''\<close>, for \<open>data\<close> not nullish.\<close>

definition responseText_of :: "jsval \<Rightarrow> jsval" where
  "responseText_of d =
     js_or
       (js_opt_prop
          (js_opt_index0
             (js_opt_prop
                (js_opt_prop (js_opt_index0 (js_prop d ''candidates'')) ''content'')
                ''parts''))
          ''text'')
       (JStr [])"

definition jsonMatch_of :: "string \<Rightarrow> (string \<times> string option) option" where
  "jsonMatch_of t =
     match_or (rx_exec RE_json_block t)
       (match_or (rx_exec RE_code_block t) (rx_exec RE_braces t))"

definition glutenInfo_js :: "glutenInfo \<Rightarrow> jsval" where
  "glutenInfo_js g =
     JObj [(''glutenFreeStatus'', JStr (gi_glutenFreeStatus g)),
           (''explanation'', JStr (gi_explanation g))]"

text \<open>The value of \<open>glutenInfo\<close> after the inner \<open>try\<close>/\<open>catch\<close> and its \<open>else\<close>.\<close>

definition glutenInfo_of :: "(string \<Rightarrow> jsval option) \<Rightarrow> string \<Rightarrow> exn + jsval" where
  "glutenInfo_of parse t =
     (let fallback = (case extractGlutenInfoFromText t of
                        Inl ex \<Rightarrow> Inl ex | Inr g \<Rightarrow> Inr (glutenInfo_js g))
      in case jsonMatch_of t of
           Some (m0, g1) \<Rightarrow>
             (case parse (rx_remove_all RE_fence_marks m0) of
                Some v \<Rightarrow> Inr v
              | None \<Rightarrow> fallback)
         | None \<Rightarrow> fallback)"

text \<open>
  The \<open>try\<close> block of \<open>checkGlutenStatus\<close>, from the reply of \<open>fetch\<close> on: \<open>Inl\<close> is
  an exception on its way to the \<open>catch\<close>. The prompt sent does not influence what comes
  back here (the reply is given by the surroundings), so its text is not built.
\<close>

definition checkGlutenStatus_try :: "env \<Rightarrow> exn + ApiResponse" where
  "checkGlutenStatus_try e =
     (case reply_classifier e of
        FetchThrows m \<Rightarrow> Inl (Error m)
      | Response st statusText body \<Rightarrow>
          if \<not> response_ok st then Inr (handleApiError st statusText body)
          else (case body of
                  Inl m \<Rightarrow> Inl (Error m)
                | Inr d \<Rightarrow>
                    if js_nullish d then Inl (TypeError_read (js_ToString d) ''candidates'')
                    else (case responseText_of d of
                            JStr responseText \<Rightarrow>
                              (case glutenInfo_of (JSON_parse e) responseText of
                                 Inl ex \<Rightarrow> Inl ex
                               | Inr gi \<Rightarrow>
                                   if js_nullish gi
                                   then Inl (TypeError_read (js_ToString gi) ''glutenFreeStatus'')
                                   else Inr \<lparr>data =
                                               JObj [(''success'', JBool True),
                                                     (''glutenFreeStatus'',
                                                      js_or (js_prop gi ''glutenFreeStatus'')
                                                        (JStr ''unknown'')),
                                                     (''explanation'',
                                                      js_or (js_prop gi ''explanation'')
                                                        (JStr ''Unable to determine''))],
                                             error = JUndefined, status = 200\<rparr>)
                          | other \<Rightarrow> Inl (TypeError_not_function ''responseText.match''))))"

text \<open>
  \<open>checkGlutenStatus\<close>: what it resolves to, and what it does on the way. Without an
  API key it shows a notification and makes no request.
\<close>

definition checkGlutenStatus_result :: "env \<Rightarrow> ApiResponse" where
  "checkGlutenStatus_result e =
     (if \<not> str_truthy (GEMINI_API_KEY e)
      then \<lparr>data = JUndefined, error = JStr ''Gemini API key is not configured'', status = 0\<rparr>
      else (case checkGlutenStatus_try e of
              Inr r \<Rightarrow> r
            | Inl ex \<Rightarrow>
                \<lparr>data = JUndefined,
                 error = JStr (message_or ex ''Unknown error with Gemini AI''), status = 0\<rparr>))"

definition checkGlutenStatus :: "env \<Rightarrow> geminiPayload \<Rightarrow> ApiResponse \<times> event list" where
  "checkGlutenStatus e productData =
     (checkGlutenStatus_result e,
      ClassifierCall productData #
      (if \<not> str_truthy (GEMINI_API_KEY e)
       then [Toast ''API Key Missing'' (JStr ''Google Gemini API key is not configured.'') True]
       else [Fetch GeminiGenerateContent (reply_classifier e)]))"

definition productInfo_js :: "productInfo \<Rightarrow> jsval" where
  "productInfo_js p = JObj [(''name'', JStr (pi_name p)), (''ingredients'', JStr (pi_ingredients p))]"

definition generateProductInfo_try :: "env \<Rightarrow> exn + ApiResponse" where
  "generateProductInfo_try e =
     (case reply_extractor e of
        FetchThrows m \<Rightarrow> Inl (Error m)
      | Response st statusText body \<Rightarrow>
          if \<not> response_ok st then Inr (handleApiError st statusText body)
          else (case body of
                  Inl m \<Rightarrow> Inl (Error m)
                | Inr d \<Rightarrow>
                    if js_nullish d then Inl (TypeError_read (js_ToString d) ''candidates'')
                    else (case responseText_of d of
                            JStr responseText \<Rightarrow>
                              (case extractProductInfoFromGeminiResponse responseText of
                                 Inl ex \<Rightarrow> Inl ex
                               | Inr p \<Rightarrow>
                                   Inr \<lparr>data = JObj [(''success'', JBool True),
                                                     (''product'', productInfo_js p)],
                                        error = JUndefined, status = 200\<rparr>)
                          | other \<Rightarrow> Inl (TypeError_not_function ''text.match''))))"

definition generateProductInfo_result :: "env \<Rightarrow> ApiResponse" where
  "generateProductInfo_result e =
     (if \<not> str_truthy (GEMINI_API_KEY e)
      then \<lparr>data = JUndefined, error = JStr ''Gemini API key is not configured'', status = 0\<rparr>
      else (case generateProductInfo_try e of
              Inr r \<Rightarrow> r
            | Inl ex \<Rightarrow>
                \<lparr>data = JUndefined,
                 error = JStr (message_or ex ''Unknown error with Gemini AI''), status = 0\<rparr>))"

definition generateProductInfo ::
    "env \<Rightarrow> string list \<Rightarrow> string \<Rightarrow> ApiResponse \<times> event list" where
  "generateProductInfo e images prompt =
     (generateProductInfo_result e,
      ExtractorCall images prompt #
      (if \<not> str_truthy (GEMINI_API_KEY e)
       then [Toast ''API Key Missing'' (JStr ''Google Gemini API key is not configured.'') True]
       else [Fetch GeminiGenerateContent (reply_extractor e)]))"

section \<open>The object store client (s3upload.ts)\<close>

record S3UploadResponse =
  s3_fileUrl :: "string option"
  s3_error :: "string option"
  s3_status :: int

definition validateS3Config :: "env \<Rightarrow> string option" where
  "validateS3Config e =
     (if \<not> str_truthy (S3_BUCKET_NAME e) then Some ''AWS S3 bucket name is not configured''
      else if \<not> str_truthy (S3_REGION e) then Some ''AWS S3 region is not configured''
      else if \<not> str_truthy (S3_ACCESS_KEY_ID e) then Some ''AWS S3 access key ID is not configured''
      else if \<not> str_truthy (S3_SECRET_ACCESS_KEY e)
        then Some ''AWS S3 secret access key is not configured''
      else None)"

definition validateFile :: "File \<Rightarrow> string option" where
  "validateFile f =
     (if f_type f \<notin> set [''image/jpeg'', ''image/png'', ''image/gif'', ''image/webp'']
      then Some ''Invalid file type. Only JPG, PNG, GIF, WEBP are allowed.''
      else if f_size f > 5 * 1024 * 1024
        then Some ''File is too large. Maximum size is 5MB.''
      else None)"

text \<open>\<open>file.name.split('.').pop() || ''\<close>\<close>

definition fileExtension :: "string \<Rightarrow> string" where
  "fileExtension n = rev (takeWhile (\<lambda>c. c \<noteq> CHR ''.'') (rev n))"

definition s3Key_of :: "env \<Rightarrow> File \<Rightarrow> string \<Rightarrow> string" where
  "s3Key_of e f pathPrefix =
     (if pathPrefix \<noteq> [] \<and> last pathPrefix = CHR ''/'' then pathPrefix else pathPrefix @ ''/'')
     @ uuidv4 e @ ''.'' @ fileExtension (f_name f)"

definition constructFileUrl :: "env \<Rightarrow> string \<Rightarrow> string" where
  "constructFileUrl e s3Key =
     (case S3_PUBLIC_URL e of
        Some u \<Rightarrow>
          if u \<noteq> [] then u @ ''/'' @ s3Key
          else ''https://'' @ (case S3_BUCKET_NAME e of Some b \<Rightarrow> b | None \<Rightarrow> ''undefined'')
               @ ''.s3.'' @ (case S3_REGION e of Some r \<Rightarrow> r | None \<Rightarrow> ''undefined'')
               @ ''.amazonaws.com/'' @ s3Key
      | None \<Rightarrow>
          ''https://'' @ (case S3_BUCKET_NAME e of Some b \<Rightarrow> b | None \<Rightarrow> ''undefined'')
          @ ''.s3.'' @ (case S3_REGION e of Some r \<Rightarrow> r | None \<Rightarrow> ''undefined'')
          @ ''.amazonaws.com/'' @ s3Key)"

text \<open>
  The \<open>catch\<close> of the upload: the message and status for a failed \<open>send\<close>, from the
  error's HTTP status code and its \<open>code\<close>.
\<close>

definition s3_failure :: "int option \<Rightarrow> string option \<Rightarrow> string \<times> int" where
  "s3_failure httpStatusCode code =
     (let (errorMessage, statusCode) =
            (case httpStatusCode of
               Some c \<Rightarrow>
                 if c \<noteq> 0
                 then (if c = 403
                         then ''Access denied uploading to S3. Check credentials and permissions.''
                       else if c = 404
                         then ''S3 bucket not found. Check your bucket name and region.''
                       else ''Failed to upload file to S3'', c)
                 else (''Failed to upload file to S3'', 500)
             | None \<Rightarrow> (''Failed to upload file to S3'', 500))
      in if code = Some ''NetworkError''
         then (''Network error while uploading to S3. Check your internet connection.'', 0)
         else (errorMessage, statusCode))"

text \<open>
  \<open>getS3Client\<close> returns \<open>null\<close> only when \<open>validateS3Config\<close> reports an error,
  which \<open>uploadFileToS3\<close> has excluded before it asks for the client.
\<close>

definition uploadFileToS3 :: "env \<Rightarrow> File \<Rightarrow> string \<Rightarrow> S3UploadResponse \<times> event list" where
  "uploadFileToS3 e f pathPrefix =
     (case validateS3Config e of
        Some configError \<Rightarrow>
          (\<lparr>s3_fileUrl = None, s3_error = Some configError, s3_status = 0\<rparr>,
           [ObjectStoreCall f pathPrefix,
            Toast ''AWS S3 Configuration Error'' (JStr configError) True])
      | None \<Rightarrow>
          (case validateFile f of
             Some fileError \<Rightarrow>
               (\<lparr>s3_fileUrl = None, s3_error = Some fileError, s3_status = 400\<rparr>,
                [ObjectStoreCall f pathPrefix, Toast ''File Validation Error'' (JStr fileError) True])
           | None \<Rightarrow>
               (case reply_s3 e of
                  PutOk \<Rightarrow>
                    (\<lparr>s3_fileUrl = Some (constructFileUrl e (s3Key_of e f pathPrefix)),
                      s3_error = None, s3_status = 200\<rparr>,
                     [ObjectStoreCall f pathPrefix, S3Put (s3Key_of e f pathPrefix) f PutOk])
                | PutFails httpStatusCode code \<Rightarrow>
                    (\<lparr>s3_fileUrl = None, s3_error = Some (fst (s3_failure httpStatusCode code)),
                      s3_status = snd (s3_failure httpStatusCode code)\<rparr>,
                     [ObjectStoreCall f pathPrefix,
                      S3Put (s3Key_of e f pathPrefix) f (PutFails httpStatusCode code),
                      Toast ''Upload Failed'' (JStr (fst (s3_failure httpStatusCode code))) True]))))"

section \<open>The scan screen (ScanTab)\<close>

text \<open>The React state of the component, as one render sees it.\<close>

record ui =
  isScanning :: bool
  showUploadModal :: bool
  uploadedImages :: "File list"
  currentBarcodeForUpload :: "string option"
  token :: "string option"

fun apply_event :: "event \<Rightarrow> ui \<Rightarrow> ui" where
  "apply_event (SetIsScanning b) u = u\<lparr>isScanning := b\<rparr>"
| "apply_event (SetShowUploadModal b) u = u\<lparr>showUploadModal := b\<rparr>"
| "apply_event (SetUploadedImages fs) u = u\<lparr>uploadedImages := fs\<rparr>"
| "apply_event (SetCurrentBarcodeForUpload b) u = u\<lparr>currentBarcodeForUpload := b\<rparr>"
| "apply_event ev u = u"

text \<open>The state of the next render, after the setters a handler called.\<close>

definition apply_events :: "event list \<Rightarrow> ui \<Rightarrow> ui" where
  "apply_events evs u = fold apply_event evs u"

definition uploadImageToServer :: "env \<Rightarrow> File \<Rightarrow> string \<Rightarrow> (exn + string) \<times> event list" where
  "uploadImageToServer e f pathPrefix =
     (let (uploadResult, evs) = uploadFileToS3 e f pathPrefix
      in if str_truthy (s3_error uploadResult)
         then (Inl (Error (case s3_error uploadResult of Some m \<Rightarrow> m | None \<Rightarrow> [])), evs)
         else (Inr (case s3_fileUrl uploadResult of Some u \<Rightarrow> u | None \<Rightarrow> []), evs))"

text \<open>The error a failed scan mutation carries: an \<open>Error\<close> with two optional properties.\<close>

record scan_error =
  se_message :: string
  isProductNotFound :: bool
  se_barcode :: "string option"

definition createScanApi ::
    "env \<Rightarrow> string option \<Rightarrow> CreateScanData \<Rightarrow> (scan_error + jsval) \<times> event list" where
  "createScanApi e tok scanData =
     (case tok of
        None \<Rightarrow>
          (Inl \<lparr>se_message = ''Authentication token not found.'', isProductNotFound = False,
                se_barcode = None\<rparr>, [])
      | Some t \<Rightarrow>
          if t = []
          then (Inl \<lparr>se_message = ''Authentication token not found.'', isProductNotFound = False,
                     se_barcode = None\<rparr>, [])
          else (let (response, evs) = scanApi_recordScan e scanData t
                in if js_truthy (error response)
                   then (if status response = 404
                         then (Inl \<lparr>se_message = js_ToString (error response),
                                    isProductNotFound = True,
                                    se_barcode = Some (productBarcode scanData)\<rparr>, evs)
                         else (Inl \<lparr>se_message = js_ToString (error response),
                                    isProductNotFound = False,
                                    se_barcode = Some (productBarcode scanData)\<rparr>, evs))
                   else (Inr (data response), evs)))"

record off_result =
  success :: bool
  reason :: "string option"
  message :: jsval
  productData :: jsval

text \<open>The candidate built from the Open Food Facts record \<open>product\<close> (truthy there).\<close>

definition productPayload_of :: "string \<Rightarrow> jsval \<Rightarrow> productPayload" where
  "productPayload_of barcode product =
     \<lparr>pp_barcode = barcode,
      pp_name =
        js_or (js_prop product ''product_name'')
          (js_or (js_prop product ''product_name_en'')
             (js_or (js_prop product ''name'') (JStr ''Unknown Product''))),
      pp_ingredients =
        js_or (js_prop product ''ingredients_text_with_allergens'')
          (js_or (js_prop product ''ingredients_text'')
             (js_or (js_prop product ''ingredients_text_en'')
                (js_or (js_prop product ''ingredients_text_debug'') (JStr [])))),
      pp_pictureUrl =
        js_or (js_prop product ''image_front_url'')
          (js_or (js_prop product ''image_url'')
             (js_or (js_prop product ''image_small_url'') (JStr [])))\<rparr>"

definition off_failure :: "string \<Rightarrow> jsval \<Rightarrow> off_result" where
  "off_failure r m = \<lparr>success = False, reason = Some r, message = m, productData = JUndefined\<rparr>"

definition fetchProductFromOpenFoodFacts ::
    "env \<Rightarrow> string \<Rightarrow> string option \<Rightarrow> off_result \<times> event list" where
  "fetchProductFromOpenFoodFacts e barcode authToken =
     (let (offResponse, ev1) = openFoodFactsApi_getProduct e barcode
      in if js_truthy (error offResponse)
         then (if status offResponse = 404 then (off_failure ''OFF_NOT_FOUND'' JUndefined, ev1)
               else (off_failure ''OFF_API_ERROR'' (error offResponse), ev1))
         else (let offData = data offResponse
               in if js_nullish offData
                  then (off_failure ''ERROR''
                          (exn_message (TypeError_read (js_ToString offData) ''status'')), ev1)
                  else if js_strict_eq (js_prop offData ''status'') (JNum 0)
                          \<or> \<not> js_truthy (js_prop offData ''product'')
                  then (off_failure ''OFF_NOT_FOUND'' JUndefined, ev1)
                  else (let productPayload = productPayload_of barcode (js_prop offData ''product'')
                        in case authToken of
                             None \<Rightarrow>
                               (off_failure ''AUTH_ERROR''
                                  (JStr ''Authentication token not found for saving product.''), ev1)
                           | Some t \<Rightarrow>
                               if t = []
                               then (off_failure ''AUTH_ERROR''
                                       (JStr ''Authentication token not found for saving product.''),
                                     ev1)
                               else (let (backendResponse, ev2) =
                                           productApi_createProduct e productPayload t
                                     in if js_truthy (error backendResponse)
                                        then (off_failure ''DB_SAVE_FAILED''
                                                (JStr (''Failed to save product to our DB: ''
                                                       @ js_ToString (error backendResponse))),
                                              ev1 @ ev2)
                                        else (\<lparr>success = True, reason = None, message = JUndefined,
                                               productData = data backendResponse\<rparr>,
                                              ev1 @ ev2)))))"

subsection \<open>The staleness check\<close>

text \<open>What \<open>checkAndProcessGlutenStatus\<close> resolves to: \<open>null\<close>, the status object of
  the product it was given, or the body of the backend's reply to the status update.\<close>

datatype check_ret = RetNull | RetStatus status_obj | RetData jsval

text \<open>
  The operations of \<open>Date\<close> that the check uses, after the ECMAScript definitions of
  \<open>getDate\<close> and \<open>setDate\<close>. A time value is a number of milliseconds since the
  epoch, in UTC; \<open>None\<close> is the invalid date.
\<close>

definition msPerDay :: int where
  "msPerDay = 86400000"

definition Day :: "int \<Rightarrow> int" where
  "Day t = t div msPerDay"

definition TimeWithinDay :: "int \<Rightarrow> int" where
  "TimeWithinDay t = t mod msPerDay"

text \<open>The day of the month, 1 to 31, in the proleptic Gregorian calendar.\<close>

definition DateFromTime :: "int \<Rightarrow> int" where
  "DateFromTime t =
     (let z = Day t + 719468;
          doe = z mod 146097;
          yoe = (doe - doe div 1460 + doe div 36524 - doe div 146096) div 365;
          doy = doe - (365 * yoe + yoe div 4 - yoe div 100);
          mp = (5 * doy + 2) div 153
      in doy - (153 * mp + 2) div 5 + 1)"

text \<open>
  \<open>MakeDay(YearFromTime(t), MonthFromTime(t), dt)\<close>: the day number of the first day of
  the month of \<open>t\<close>, which is \<open>Day t - (DateFromTime t - 1)\<close>, plus \<open>dt - 1\<close>. A
  \<open>dt\<close> below 1 counts back into the month before.
\<close>

definition MakeDay_in_month :: "int \<Rightarrow> int \<Rightarrow> int" where
  "MakeDay_in_month t dt = Day t - (DateFromTime t - 1) + dt - 1"

definition MakeDate :: "int \<Rightarrow> int \<Rightarrow> int" where
  "MakeDate day time = day * msPerDay + time"

definition TimeClip :: "int \<Rightarrow> int option" where
  "TimeClip t = (if abs t > 8640000000000000 then None else Some t)"

definition LocalTime :: "env \<Rightarrow> int \<Rightarrow> int" where
  "LocalTime e t = t + LocalTZA e t True"

definition UTC :: "env \<Rightarrow> int \<Rightarrow> int" where
  "UTC e t = t - LocalTZA e t False"

definition Date_getDate :: "env \<Rightarrow> int \<Rightarrow> int" where
  "Date_getDate e t = DateFromTime (LocalTime e t)"

definition Date_setDate :: "env \<Rightarrow> int \<Rightarrow> int \<Rightarrow> int option" where
  "Date_setDate e t dt =
     (let lt = LocalTime e t;
          newDate = MakeDate (MakeDay_in_month lt dt) (TimeWithinDay lt)
      in TimeClip (UTC e newDate))"

text \<open>
  \<open>const oneWeekAgo = new Date(); oneWeekAgo.setDate(oneWeekAgo.getDate() - 7)\<close>: the
  same time of day seven calendar days earlier, in local time.
\<close>

definition oneWeekAgo :: "env \<Rightarrow> int option" where
  "oneWeekAgo e = Date_setDate e (now e) (Date_getDate e (now e) - 7)"

text \<open>\<open>productDate > oneWeekAgo\<close>; an invalid date on either side compares false.\<close>

definition is_recent :: "env \<Rightarrow> string \<Rightarrow> bool" where
  "is_recent e createdAt =
     (case Date_parse e createdAt of
        Some productDate \<Rightarrow>
          (case oneWeekAgo e of Some w \<Rightarrow> productDate > w | None \<Rightarrow> False)
      | None \<Rightarrow> False)"

definition status_updated_text :: "string \<Rightarrow> jsval \<Rightarrow> jsval \<Rightarrow> string" where
  "status_updated_text nm glutenFreeStatus explanation =
     ''Product '' @ [CHR 0x27] @ nm @ [CHR 0x27] @ '' status updated to '' @ [CHR 0x27]
     @ js_ToString glutenFreeStatus @ [CHR 0x27] @ ''. ''
     @ (if js_truthy explanation then ''Reason: '' @ js_ToString explanation else [])"

text \<open>The \<open>try\<close> block; \<open>st\<close> is \<open>product.status\<close>.\<close>

definition checkAndProcessGlutenStatus_try ::
    "env \<Rightarrow> ProductInScan \<Rightarrow> status_obj \<Rightarrow> string option \<Rightarrow> (exn + check_ret) \<times> event list"
  where
  "checkAndProcessGlutenStatus_try e product st authToken =
     (let geminiPayload = \<lparr>productName = p_name product, ingredients = p_ingredients product,
                            currentStatus = Some (st_status st)\<rparr>;
          (geminiResponse, ev1) = checkGlutenStatus e geminiPayload
      in if js_truthy (error geminiResponse)
         then (Inl (Error (''Gemini API for gluten check failed: ''
                           @ js_ToString (error geminiResponse))), ev1)
         else if \<not> js_truthy (js_opt_prop (data geminiResponse) ''success'')
                 \<or> \<not> js_truthy (js_opt_prop (data geminiResponse) ''glutenFreeStatus'')
         then (Inl (Error ''Gemini gluten check was not successful or status missing''), ev1)
         else (let glutenFreeStatus = js_prop (data geminiResponse) ''glutenFreeStatus'';
                   explanation = js_prop (data geminiResponse) ''explanation''
               in if \<not> js_strict_eq glutenFreeStatus (JStr (st_status st))
                  then (if \<not> str_truthy authToken then (Inr (RetStatus st), ev1)
                        else (let statusUpdatePayload =
                                    \<lparr>su_status = glutenFreeStatus,
                                     su_explanation = js_or explanation (JStr [])\<rparr>;
                                  (backendUpdateResponse, ev2) =
                                    statusApi_updateProductStatus e (p_barcode product)
                                      statusUpdatePayload
                                      (case authToken of Some t \<Rightarrow> t | None \<Rightarrow> [])
                              in if js_truthy (error backendUpdateResponse)
                                 then (Inr (RetStatus st), ev1 @ ev2)
                                 else (Inr (RetData (data backendUpdateResponse)),
                                       ev1 @ ev2 @
                                       [Toast ''AI Gluten Check''
                                          (JStr (status_updated_text (p_name product)
                                                   glutenFreeStatus explanation))
                                          False])))
                  else (Inr (RetStatus st), ev1)))"

definition checkAndProcessGlutenStatus ::
    "env \<Rightarrow> ProductInScan \<Rightarrow> string option \<Rightarrow> (exn + check_ret) \<times> event list" where
  "checkAndProcessGlutenStatus e product authToken =
     (case p_status product of
        None \<Rightarrow> (Inr RetNull, [])
      | Some st \<Rightarrow>
          if p_createdAt product = [] then (Inr RetNull, [])
          else if is_recent e (p_createdAt product) then (Inr (RetStatus st), [])
          else (case checkAndProcessGlutenStatus_try e product st authToken of
                  (Inr r, evs) \<Rightarrow> (Inr r, evs)
                | (Inl ex, evs) \<Rightarrow>
                    (Inr (RetStatus st),
                     evs @ [Toast ''AI Gluten Check Failed'' (exn_message ex) True])))"

subsection \<open>The scan mutation and its callbacks\<close>

record scan_product =
  sp_barcode :: string
  sp_name :: string
  sp_ingredients :: jsval
  sp_createdAt :: string
  sp_status :: "status_obj option"

record ScanType =
  sc_productBarcode :: string
  sc_product :: "scan_product option"

text \<open>\<open>data.product as ProductInScan\<close>, once \<open>typeof ingredients === 'string'\<close> holds.\<close>

definition as_ProductInScan :: "scan_product \<Rightarrow> string \<Rightarrow> ProductInScan" where
  "as_ProductInScan sp ingr =
     \<lparr>p_barcode = sp_barcode sp, p_name = sp_name sp, p_ingredients = ingr,
      p_createdAt = sp_createdAt sp, p_status = sp_status sp\<rparr>"

text \<open>\<open>processBarcode\<close>: the mutation is started; its callbacks run when it settles.\<close>

definition processBarcode :: "env \<Rightarrow> string \<Rightarrow> event list" where
  "processBarcode e barcode =
     [SetIsScanning True,
      RecordScan \<lparr>productBarcode = barcode, date = nowISO e, symptoms = []\<rparr>]"

text \<open>\<open>updatedProductStatus && updatedProductStatus.status !== label\<close>\<close>

fun status_changed :: "check_ret \<Rightarrow> string \<Rightarrow> bool" where
  "status_changed RetNull label = False"
| "status_changed (RetStatus st) label = (st_status st \<noteq> label)"
| "status_changed (RetData v) label =
     (js_truthy v \<and> \<not> js_strict_eq (js_prop v ''status'') (JStr label))"

definition onSuccess_tail :: "ScanType \<Rightarrow> event list" where
  "onSuccess_tail d =
     [InvalidateQueries [''recentScans''], InvalidateQueries [''currentUser''],
      InvalidateQueries [''product'', sc_productBarcode d]]"

text \<open>
  \<open>onSuccess\<close> of the scan mutation. \<open>Inl\<close> is an exception leaving the callback, which
  the mutation would report through \<open>onError\<close>.
\<close>

definition onSuccess :: "env \<Rightarrow> ui \<Rightarrow> ScanType \<Rightarrow> (exn + unit) \<times> event list" where
  "onSuccess e u d =
     (let ev0 = [Toast ''Scan Recorded!''
                   (JStr (''Product (Barcode: '' @ sc_productBarcode d
                          @ '') scan has been added to your journal.'')) False,
                 SetIsScanning False]
      in case sc_product d of
           None \<Rightarrow> (Inr (), ev0 @ onSuccess_tail d)
         | Some sp \<Rightarrow>
             (case (sp_createdAt sp \<noteq> [], sp_status sp, sp_ingredients sp) of
                (True, Some st, JStr ingr) \<Rightarrow>
                  (case checkAndProcessGlutenStatus e (as_ProductInScan sp ingr) (token u) of
                     (Inl ex, ev1) \<Rightarrow> (Inl ex, ev0 @ ev1)
                   | (Inr updatedProductStatus, ev1) \<Rightarrow>
                       (Inr (),
                        ev0 @ ev1
                        @ (if status_changed updatedProductStatus (st_status st)
                           then [InvalidateQueries [''product'', sc_productBarcode d],
                                 InvalidateQueries [''recentScans'']]
                           else [])
                        @ onSuccess_tail d))
              | other \<Rightarrow> (Inr (), ev0 @ onSuccess_tail d)))"

definition onError :: "env \<Rightarrow> ui \<Rightarrow> scan_error \<Rightarrow> CreateScanData \<Rightarrow> event list" where
  "onError e u err variables =
     (let currentBarcode =
            (if str_truthy (se_barcode err)
             then (case se_barcode err of Some b \<Rightarrow> b | None \<Rightarrow> [])
             else productBarcode variables)
      in if isProductNotFound err \<and> currentBarcode \<noteq> []
         then (let ev0 = [SetIsScanning True,
                          Toast ''Product Not Found''
                            (JStr (''Searching Open Food Facts for barcode: '' @ currentBarcode
                                   @ ''...'')) False];
                   (offResult, ev1) = fetchProductFromOpenFoodFacts e currentBarcode (token u)
               in if success offResult
                  then ev0 @ ev1
                       @ [Toast ''Product Added!''
                            (JStr ''Found on Open Food Facts and added to our database. Recording your scan...'')
                            False]
                       @ processBarcode e currentBarcode
                  else if reason offResult = Some ''OFF_NOT_FOUND''
                  then ev0 @ ev1
                       @ [SetCurrentBarcodeForUpload (Some currentBarcode),
                          SetUploadedImages [],
                          SetShowUploadModal True,
                          Toast ''Not on Open Food Facts''
                            (JStr ''Please help add this product by uploading its images.'') False,
                          SetIsScanning False]
                  else ev0 @ ev1
                       @ [Toast ''Product Processing Error''
                            (js_or (message offResult)
                               (JStr ''Could not process product information from Open Food Facts.''))
                            True,
                          SetIsScanning False])
         else [Toast ''Failed to Record Scan''
                 (JStr ((if se_message err \<noteq> [] then se_message err
                         else ''An unexpected error occurred.'')
                        @ '' (Barcode: ''
                        @ (if currentBarcode \<noteq> [] then currentBarcode else ''unknown'') @ '')''))
                 True,
               SetIsScanning False])"

subsection \<open>Community sourcing: the upload dialog\<close>

text \<open>The \<open>onChange\<close> of the multiple-upload input: the new list of collected images.\<close>

definition addImages :: "File list \<Rightarrow> File list \<Rightarrow> File list" where
  "addImages prev files = (if files \<noteq> [] then take 8 (prev @ files) else prev)"

text \<open>\<open>Promise.all(uploadedImages.map(fileToBase64))\<close>\<close>

definition readAll :: "env \<Rightarrow> File list \<Rightarrow> exn + string list" where
  "readAll e fs =
     (if list_all (\<lambda>f. readAsDataURL e f \<noteq> None) fs
      then Inr (map (\<lambda>f. case readAsDataURL e f of Some d \<Rightarrow> d | None \<Rightarrow> []) fs)
      else Inl ProgressEvent)"

definition extraction_prompt :: "string \<Rightarrow> string" where
  "extraction_prompt barcode =
     ''Analyze these images to identify the product name and ingredients.'' @ [newline]
     @ ''      The product has barcode: '' @ barcode @ ''.'' @ [newline]
     @ ''      Provide name and ingredients.''"

text \<open>
  The \<open>try\<close> block of \<open>handleMultipleImageUpload\<close>, for the barcode of the dialog:
  \<open>Inl\<close> is an exception on its way to the \<open>catch\<close>.
\<close>

definition handleMultipleImageUpload_try ::
    "env \<Rightarrow> ui \<Rightarrow> string \<Rightarrow> (exn + unit) \<times> event list" where
  "handleMultipleImageUpload_try e u barcode =
     (case readAll e (uploadedImages u) of
        Inl ex \<Rightarrow> (Inl ex, [])
      | Inr base64Images \<Rightarrow>
          (let (geminiResponse, ev1) =
                 generateProductInfo e base64Images (extraction_prompt barcode)
           in if js_truthy (error geminiResponse)
              then (Inl (Error (''Gemini API failed: '' @ js_ToString (error geminiResponse))), ev1)
              else if \<not> js_truthy (js_opt_prop (data geminiResponse) ''success'')
                      \<or> \<not> js_truthy (js_opt_prop (data geminiResponse) ''product'')
              then (Inl (Error ''Failed to get product info from AI.''), ev1)
              else (let geminiProduct = js_prop (data geminiResponse) ''product''
                    in case uploadedImages u of
                         [] \<Rightarrow> (Inl (TypeError_read ''undefined'' ''type''), ev1)
                       | first # others \<Rightarrow>
                           (case uploadImageToServer e first (''products/'' @ barcode) of
                              (Inl ex, ev2) \<Rightarrow> (Inl ex, ev1 @ ev2)
                            | (Inr firstImageUrl, ev2) \<Rightarrow>
                                (let productPayload =
                                       \<lparr>pp_barcode = barcode,
                                        pp_name = js_or (js_prop geminiProduct ''name'')
                                                    (JStr ''Unknown Product (from AI)''),
                                        pp_ingredients = js_or (js_prop geminiProduct ''ingredients'')
                                                           (JStr []),
                                        pp_pictureUrl = JStr firstImageUrl\<rparr>
                                 in if \<not> str_truthy (token u)
                                    then (Inl (Error ''Authentication token not found.''), ev1 @ ev2)
                                    else (let (backendResponse, ev3) =
                                                productApi_createProduct e productPayload
                                                  (case token u of Some t \<Rightarrow> t | None \<Rightarrow> [])
                                          in if js_truthy (error backendResponse)
                                             then (Inl (Error (''Failed to save AI-generated product: ''
                                                               @ js_ToString (error backendResponse))),
                                                   ev1 @ ev2 @ ev3)
                                             else (Inr (),
                                                   ev1 @ ev2 @ ev3
                                                   @ [Toast ''Product Added with AI!''
                                                        (JStr ''The new product information has been saved. Recording your scan...'')
                                                        False,
                                                      SetShowUploadModal False]
                                                   @ processBarcode e barcode)))))))"

text \<open>
  The \<open>finally\<close> block reads \<open>showUploadModal\<close> and \<open>isScanning\<close> as the render that
  created the handler saw them, whatever the handler has set since.
\<close>

definition handleMultipleImageUpload_finally :: "ui \<Rightarrow> event list" where
  "handleMultipleImageUpload_finally u =
     (if \<not> showUploadModal u \<or> (showUploadModal u \<and> \<not> isScanning u)
      then [SetUploadedImages [], SetCurrentBarcodeForUpload None]
      else [])"

definition handleMultipleImageUpload :: "env \<Rightarrow> ui \<Rightarrow> event list" where
  "handleMultipleImageUpload e u =
     (if length (uploadedImages u) < 4
      then [Toast ''More Images Needed''
              (JStr (''Please upload at least 4 images. Current: ''
                     @ show_int (int (length (uploadedImages u))))) True]
      else if \<not> str_truthy (currentBarcodeForUpload u)
      then [Toast ''Error''
              (JStr ''No barcode associated with this upload. Please try scanning again.'') True]
      else (let barcode = (case currentBarcodeForUpload u of Some b \<Rightarrow> b | None \<Rightarrow> [])
            in [SetIsScanning True]
               @ (case handleMultipleImageUpload_try e u barcode of
                    (Inr ok, evs) \<Rightarrow> evs
                  | (Inl ex, evs) \<Rightarrow>
                      evs @ [Toast ''AI Product Creation Failed'' (exn_message ex) True,
                             SetIsScanning False])
               @ handleMultipleImageUpload_finally u))"

section \<open>The catalog behind the API\<close>

text \<open>
  The backend that serves \<open>/api/products\<close> and \<open>/api/status\<close> is not among the
  sources. Where a statement speaks of the stored record, the store is the one the
  specification describes.
\<close>

record stored_status =
  label :: jsval
  status_explanation :: jsval
  lastEvaluatedAt :: int

record Product =
  prod_barcode :: string
  prod_name :: jsval
  prod_ingredients :: jsval
  prod_pictureUrl :: jsval
  prod_status :: stored_status

type_synonym catalog = "string \<Rightarrow> Product option"

datatype create_result = Created Product | ConflictExists

datatype update_result = UpdateOk | NotFound

text \<open>
  Modelled from the spec: \<open>CatalogStore.create(Product) -> Product | ConflictExists\<close>,
  the backend's handler for creating a product, which is not under \<open>src/\<close>. A product
  is created at most once per barcode, with \<open>status.label = unknown\<close> and
  \<open>status.lastEvaluatedAt = now\<close>. (The specification does not give the first
  explanation; it is empty here.)
\<close>

definition CatalogStore_create :: "int \<Rightarrow> productPayload \<Rightarrow> catalog \<Rightarrow> create_result \<times> catalog"
  where
  "CatalogStore_create t p c =
     (case c (pp_barcode p) of
        Some existing \<Rightarrow> (ConflictExists, c)
      | None \<Rightarrow>
          (let created = \<lparr>prod_barcode = pp_barcode p, prod_name = pp_name p,
                          prod_ingredients = pp_ingredients p, prod_pictureUrl = pp_pictureUrl p,
                          prod_status = \<lparr>label = JStr ''unknown'', status_explanation = JStr [],
                                         lastEvaluatedAt = t\<rparr>\<rparr>
           in (Created created, c(pp_barcode p \<mapsto> created))))"

text \<open>
  Modelled from the spec: \<open>CatalogStore.updateStatus(barcode, status) -> ok | NotFound\<close>,
  the backend's handler for a status update, which is not under \<open>src/\<close>: a full
  overwrite of the status fields keyed by barcode, \<open>{label, explanation,
  lastEvaluatedAt: now}\<close>.
\<close>

definition CatalogStore_updateStatus ::
    "int \<Rightarrow> string \<Rightarrow> statusUpdatePayload \<Rightarrow> catalog \<Rightarrow> update_result \<times> catalog" where
  "CatalogStore_updateStatus t b p c =
     (case c b of
        None \<Rightarrow> (NotFound, c)
      | Some existing \<Rightarrow>
          (UpdateOk,
           c(b \<mapsto> existing\<lparr>prod_status := \<lparr>label = su_status p,
                                             status_explanation = su_explanation p,
                                             lastEvaluatedAt = t\<rparr>\<rparr>)))"

text \<open>
  Modelled from the spec: what the store holds after the HTTP exchanges of a handler.
  An exchange the backend answered with a success status performed its operation; one
  that failed on the way or was answered with an error wrote nothing.
\<close>

fun backend_step :: "int \<Rightarrow> event \<Rightarrow> catalog \<Rightarrow> catalog" where
  "backend_step t (Fetch (ProductsPost p tok) (Response st statusText body)) c =
     (if response_ok st then snd (CatalogStore_create t p c) else c)"
| "backend_step t (Fetch (StatusPatch b p tok) (Response st statusText body)) c =
     (if response_ok st then snd (CatalogStore_updateStatus t b p c) else c)"
| "backend_step t ev c = c"

definition catalog_after :: "int \<Rightarrow> event list \<Rightarrow> catalog \<Rightarrow> catalog" where
  "catalog_after t evs c = fold (backend_step t) evs c"


fun is_ExtractorCall :: "event \<Rightarrow> bool" where
  "is_ExtractorCall (ExtractorCall images prompt) = True"
| "is_ExtractorCall ev = False"

fun is_ObjectStoreCall :: "event \<Rightarrow> bool" where
  "is_ObjectStoreCall (ObjectStoreCall f pathPrefix) = True"
| "is_ObjectStoreCall ev = False"

fun is_StatusPatch :: "event \<Rightarrow> bool" where
  "is_StatusPatch (Fetch (StatusPatch b p tok) outcome) = True"
| "is_StatusPatch ev = False"

fun is_ProductsPost :: "event \<Rightarrow> bool" where
  "is_ProductsPost (Fetch (ProductsPost p tok) outcome) = True"
| "is_ProductsPost ev = False"

fun is_RecordScan :: "event \<Rightarrow> bool" where
  "is_RecordScan (RecordScan d) = True"
| "is_RecordScan ev = False"

definition count_events :: "(event \<Rightarrow> bool) \<Rightarrow> event list \<Rightarrow> nat" where
  "count_events P evs = length (filter P evs)"

text \<open>The ordered preference list of the specification: the first value that is not
  empty, or the default.\<close>

fun first_truthy :: "jsval list \<Rightarrow> jsval \<Rightarrow> jsval" where
  "first_truthy [] dflt = dflt"
| "first_truthy (v # vs) dflt = (if js_truthy v then v else first_truthy vs dflt)"

text \<open>
  The answers of the external catalog, in the words of the specification. Open Food
  Facts answers a lookup with a JSON object: it holds \<open>status: 0\<close> where the catalog
  has no entry, and the record under \<open>product\<close> where it has one. Any other body is
  malformed: text that is not JSON, \<open>null\<close>, a number, an object such as
  \<open>{"error": ...}\<close>, or one whose \<open>product\<close> is not an object.
\<close>

definition reports_no_entry :: "jsval \<Rightarrow> bool" where
  "reports_no_entry d =
     (case d of JObj kvs \<Rightarrow> map_of kvs ''status'' = Some (JNum 0) | _ \<Rightarrow> False)"

definition carries_record :: "jsval \<Rightarrow> bool" where
  "carries_record d =
     (case d of
        JObj kvs \<Rightarrow> (case map_of kvs ''product'' of Some (JObj p) \<Rightarrow> True | _ \<Rightarrow> False)
      | _ \<Rightarrow> False)"

definition malformed_answer :: "string + jsval \<Rightarrow> bool" where
  "malformed_answer body =
     (case body of
        Inl m \<Rightarrow> True
      | Inr d \<Rightarrow> \<not> reports_no_entry d \<and> \<not> carries_record d)"

text \<open>
  An external catalog lookup that ends in an upstream error, in the words of the
  specification: the request failed on the network, the catalog answered with an error
  status other than 404, or it answered with a success status and a malformed body.
\<close>

definition upstream_error :: "fetch_outcome \<Rightarrow> bool" where
  "upstream_error r =
     (case r of
        FetchThrows m \<Rightarrow> True
      | Response st statusText body \<Rightarrow>
          if response_ok st then malformed_answer body else st \<noteq> 404)"

text \<open>
  What \<open>fetchProductFromOpenFoodFacts\<close> reads as \<open>offData\<close>, where the lookup gives
  it one: the JSON body of an answer with a success status, unless that is \<open>null\<close>.
\<close>

definition offData_of :: "fetch_outcome \<Rightarrow> jsval option" where
  "offData_of r =
     (case r of
        FetchThrows m \<Rightarrow> None
      | Response st statusText body \<Rightarrow>
          (case body of
             Inl m \<Rightarrow> None
           | Inr d \<Rightarrow> if response_ok st \<and> \<not> js_nullish d then Some d else None))"

text \<open>
  An external catalog lookup that ends in \<open>Found\<close>: the record the catalog returned,
  by the tests of \<open>fetchProductFromOpenFoodFacts\<close>.
\<close>

definition found_product :: "fetch_outcome \<Rightarrow> jsval option" where
  "found_product r =
     (case r of
        FetchThrows m \<Rightarrow> None
      | Response st statusText body \<Rightarrow>
          (case body of
             Inl m \<Rightarrow> None
           | Inr offData \<Rightarrow>
               if response_ok st \<and> \<not> js_nullish offData
                  \<and> \<not> js_strict_eq (js_prop offData ''status'') (JNum 0)
                  \<and> js_truthy (js_prop offData ''product'')
               then Some (js_prop offData ''product'') else None))"

text \<open>The backend answered the request with an error status, as it does for a conflict.\<close>

definition refused :: "fetch_outcome \<Rightarrow> bool" where
  "refused r =
     (case r of FetchThrows m \<Rightarrow> False | Response st statusText body \<Rightarrow> \<not> response_ok st)"

text \<open>The classifier's text holds no JSON that \<open>JSON.parse\<close> accepts.\<close>

definition no_parseable_json :: "env \<Rightarrow> string \<Rightarrow> bool" where
  "no_parseable_json e t =
     (case jsonMatch_of t of
        None \<Rightarrow> True
      | Some (m0, g1) \<Rightarrow> JSON_parse e (rx_remove_all RE_fence_marks m0) = None)"

text \<open>The text holds neither a status keyword nor a marker of an explanation.\<close>

definition no_keywords :: "string \<Rightarrow> bool" where
  "no_keywords t =
     (\<not> rx_test RE_gluten_free t \<and> \<not> rx_test RE_contains_gluten t
      \<and> \<not> rx_test (RE_labelled_lines ''explanation'') t
      \<and> \<not> rx_test (RE_labelled_lines ''analysis'') t
      \<and> \<not> rx_test (RE_labelled_lines ''assessment'') t)"

text \<open>
  The Extractor call succeeded, as \<open>handleMultipleImageUpload\<close> tests it; the upload of
  the first collected image failed.
\<close>

definition extractor_ok :: "env \<Rightarrow> bool" where
  "extractor_ok e =
     (\<not> js_truthy (error (generateProductInfo_result e))
      \<and> js_truthy (js_opt_prop (data (generateProductInfo_result e)) ''success'')
      \<and> js_truthy (js_opt_prop (data (generateProductInfo_result e)) ''product''))"

definition first_upload_failed :: "env \<Rightarrow> ui \<Rightarrow> bool" where
  "first_upload_failed e u =
     (case (uploadedImages u, currentBarcodeForUpload u) of
        (first # others, Some b) \<Rightarrow>
          str_truthy (s3_error (fst (uploadFileToS3 e first (''products/'' @ b))))
      | other \<Rightarrow> False)"

section \<open>Sample inputs\<close>

text \<open>A reply of the Gemini API whose first candidate holds the text \<open>t\<close>.\<close>

definition gemini_reply :: "string \<Rightarrow> fetch_outcome" where
  "gemini_reply t =
     Response 200 ''OK''
       (Inr (JObj [(''candidates'',
                    JArr [JObj [(''content'', JObj [(''parts'', JArr [JObj [(''text'', JStr t)]])])]])]))"

text \<open>
  9 January 2024 in a time zone that keeps UTC, everything configured. The classifier answers with prose that holds
  no JSON; the extractor names the product; Open Food Facts and the scan endpoint
  answer 404; the backend accepts what it is sent.
\<close>

definition sample_env :: env where
  "sample_env =
     \<lparr>now = 1704758400000, nowISO = ''2024-01-09T00:00:00.000Z'',
      Date_parse = map_of [(''2024-01-01T00:00:00.000Z'', 1704067200000),
                           (''2024-01-08T00:00:00.000Z'', 1704672000000),
                           (''2024-03-06T12:30:00.000Z'', 1709728200000)],
      LocalTZA = (\<lambda>t isUTC. 0),
      JSON_parse = Map.empty,
      GEMINI_API_KEY = Some ''key'',
      S3_BUCKET_NAME = Some ''bucket'', S3_REGION = Some ''eu-west-1'',
      S3_ACCESS_KEY_ID = Some ''id'', S3_SECRET_ACCESS_KEY = Some ''secret'',
      S3_PUBLIC_URL = None, uuidv4 = ''u1'',
      readAsDataURL = (\<lambda>f. Some (''data:image/jpeg;base64,'' @ f_name f)),
      reply_classifier = gemini_reply ''I am not sure.'',
      reply_extractor = gemini_reply ''Product name: Granola Bar'',
      reply_off = Response 404 ''Not Found'' (Inr (JObj [])),
      reply_products = Response 201 ''Created'' (Inr (JObj [(''barcode'', JStr ''0001'')])),
      reply_status = Response 200 ''OK'' (Inr (JObj [(''status'', JStr ''unknown'')])),
      reply_scans =
        Response 404 ''Not Found'' (Inr (JObj [(''message'', JStr ''Product not found'')])),
      reply_s3 = PutOk\<rparr>"

text \<open>A product created on 1 January 2024, stored as gluten-free.\<close>

definition sample_product :: ProductInScan where
  "sample_product =
     \<lparr>p_barcode = ''0001'', p_name = ''Granola Bar'', p_ingredients = ''oats, honey'',
      p_createdAt = ''2024-01-01T00:00:00.000Z'',
      p_status = Some \<lparr>st_status = ''gluten-free'', st_explanation = Some ''certified''\<rparr>\<rparr>"

definition sample_catalog :: catalog where
  "sample_catalog =
     [''0001'' \<mapsto>
        \<lparr>prod_barcode = ''0001'', prod_name = JStr ''Granola Bar'',
         prod_ingredients = JStr ''oats, honey'', prod_pictureUrl = JStr [],
         prod_status = \<lparr>label = JStr ''gluten-free'', status_explanation = JStr ''certified'',
                        lastEvaluatedAt = 1704067200000\<rparr>\<rparr>]"

definition sample_image :: "string \<Rightarrow> File" where
  "sample_image n = \<lparr>f_name = n, f_type = ''image/jpeg'', f_size = 1000\<rparr>"

text \<open>The upload dialog, open for barcode 0001 with four images collected.\<close>

definition sample_ui :: ui where
  "sample_ui =
     \<lparr>isScanning = False, showUploadModal = True,
      uploadedImages = [sample_image ''front.jpg'', sample_image ''back.jpg'',
                        sample_image ''left.jpg'', sample_image ''right.jpg''],
      currentBarcodeForUpload = Some ''0001'', token = Some ''tok''\<rparr>"

definition sample_scanData :: CreateScanData where
  "sample_scanData = \<lparr>productBarcode = ''0001'', date = ''2024-01-09T00:00:00.000Z'', symptoms = []\<rparr>"

text \<open>The error \<open>createScanApi\<close> throws when the backend does not know the barcode.\<close>

definition sample_not_found :: scan_error where
  "sample_not_found =
     \<lparr>se_message = ''Product not found'', isProductNotFound = True, se_barcode = Some ''0001''\<rparr>"

text \<open>Open Food Facts knows the product of the specification's scenario.\<close>

definition off_granola :: fetch_outcome where
  "off_granola =
     Response 200 ''OK''
       (Inr (JObj [(''status'', JNum 1),
                   (''product'',
                    JObj [(''name'', JStr ''Granola Bar''),
                          (''ingredients_text'', JStr ''oats, honey, wheat flour'')])]))"


text \<open>
  The classifier answers with JSON whose label is none of the three; \<open>JSON.parse\<close> is
  given on that text.
\<close>

definition json_maybe :: string where
  "json_maybe = ''{\"glutenFreeStatus\":\"maybe\"}''"

definition env_maybe :: env where
  "env_maybe =
     sample_env\<lparr>reply_classifier := gemini_reply json_maybe,
                JSON_parse := map_of [(json_maybe, JObj [(''glutenFreeStatus'', JStr ''maybe'')])]\<rparr>"

text \<open>Open Food Facts knows the product; then the backend reports a conflict.\<close>

definition env_found :: env where
  "env_found = sample_env\<lparr>reply_off := off_granola\<rparr>"

definition env_conflict :: env where
  "env_conflict =
     sample_env\<lparr>reply_off := off_granola,
                reply_products :=
                  Response 409 ''Conflict''
                    (Inr (JObj [(''message'', JStr ''Product already exists'')]))\<rparr>"

text \<open>Open Food Facts is down; the Gemini API cannot be reached for the extraction.\<close>

definition env_off_down :: env where
  "env_off_down =
     sample_env\<lparr>reply_off := Response 503 ''Service Unavailable'' (Inl ''Unexpected token <'')\<rparr>"

definition env_extractor_down :: env where
  "env_extractor_down = sample_env\<lparr>reply_extractor := FetchThrows ''Failed to fetch''\<rparr>"

text \<open>
  Open Food Facts answers 200 with a body that is no catalog answer; and with one whose
  \<open>product\<close> is a text.
\<close>

definition env_off_garbled :: env where
  "env_off_garbled =
     sample_env\<lparr>reply_off :=
                  Response 200 ''OK''
                    (Inr (JObj [(''error'', JStr ''service temporarily unavailable'')]))\<rparr>"

definition env_off_odd :: env where
  "env_off_odd =
     sample_env\<lparr>reply_off :=
                  Response 200 ''OK''
                    (Inr (JObj [(''status'', JNum 1), (''product'', JStr ''moved'')]))\<rparr>"




section \<open>Counting events\<close>

lemma count_events_Nil: "count_events P [] = 0"
  by (simp add: count_events_def)

lemma count_events_Cons: "count_events P (ev # evs) = (if P ev then 1 else 0) + count_events P evs"
  by (simp add: count_events_def)

lemma count_events_append: "count_events P (xs @ ys) = count_events P xs + count_events P ys"
  by (simp add: count_events_def)

lemma catalog_after_Nil: "catalog_after t [] c = c"
  by (simp add: catalog_after_def)

lemma catalog_after_Cons: "catalog_after t (ev # evs) c = catalog_after t evs (backend_step t ev c)"
  by (simp add: catalog_after_def)


lemma backend_step_other:
  "\<not> is_ProductsPost ev \<Longrightarrow> \<not> is_StatusPatch ev \<Longrightarrow> backend_step t ev c = c"
  by (cases "(t, ev, c)" rule: backend_step.cases) simp_all

lemma catalog_after_no_writes:
  "count_events is_ProductsPost evs = 0 \<Longrightarrow> count_events is_StatusPatch evs = 0
     \<Longrightarrow> catalog_after t evs c = c"
proof (induction evs arbitrary: c)
  case Nil
  then show ?case by (simp add: catalog_after_Nil)
next
  case (Cons ev evs)
  then have "\<not> is_ProductsPost ev" "\<not> is_StatusPatch ev"
    by (auto simp: count_events_Cons split: if_splits)
  then have "backend_step t ev c = c"
    by (rule backend_step_other)
  moreover have "count_events is_ProductsPost evs = 0" "count_events is_StatusPatch evs = 0"
    using Cons.prems by (auto simp: count_events_Cons split: if_splits)
  ultimately show ?case
    using Cons.IH by (simp add: catalog_after_Cons)
qed

section \<open>The staleness check: when it calls the classifier\<close>












section \<open>The staleness check: what it writes\<close>


text \<open>
  Where the Classifier call comes back as an error result (no API key, the request
  failed on the network, an error status, a body that is not JSON), the check keeps the
  status it was given and sends no update.
\<close>

lemma classifier_error_keeps_status:
  assumes "p_status product = Some st" and "p_createdAt product \<noteq> []"
    and "\<not> is_recent e (p_createdAt product)"
    and "js_truthy (error (checkGlutenStatus_result e))"
  shows "fst (checkAndProcessGlutenStatus e product tok) = Inr (RetStatus st)"
    and "count_events is_StatusPatch (snd (checkAndProcessGlutenStatus e product tok)) = 0"
  using assms
  by (simp_all add: checkAndProcessGlutenStatus_def checkAndProcessGlutenStatus_try_def
        checkGlutenStatus_def count_events_def Let_def)

text \<open>
  C1, at the input where the code departs from it. The sample product is stale and
  stored as gluten-free; the classifier answers HTTP 200 with the text
  \<open>I am not sure.\<close>, which holds no JSON. The check sends a status update with the
  label \<open>unknown\<close>, and the store that accepts it then holds \<open>unknown\<close>.
\<close>

theorem C1_unparseable_answer_overwrites:
  "Fetch (StatusPatch ''0001''
            \<lparr>su_status = JStr ''unknown'',
             su_explanation = JStr ''Unable to determine from AI response''\<rparr> ''tok'')
         (reply_status sample_env)
     \<in> set (snd (checkAndProcessGlutenStatus sample_env sample_product (Some ''tok'')))
   \<and> map_option (\<lambda>p. label (prod_status p)) (sample_catalog ''0001'') = Some (JStr ''gluten-free'')
   \<and> map_option (\<lambda>p. label (prod_status p))
         (catalog_after (now sample_env)
            (snd (checkAndProcessGlutenStatus sample_env sample_product (Some ''tok'')))
            sample_catalog ''0001'') = Some (JStr ''unknown'')"
  by code_simp




section \<open>The callbacks of the scan mutation\<close>

lemma check_try_no_scan_failure:
  "Toast ''Failed to Record Scan'' descr b
     \<notin> set (snd (checkAndProcessGlutenStatus_try e product st tok))"
  by (simp add: checkAndProcessGlutenStatus_try_def checkGlutenStatus_def
        statusApi_updateProductStatus_def Let_def split: prod.splits)

lemma check_no_scan_failure:
  "Toast ''Failed to Record Scan'' descr b
     \<notin> set (snd (checkAndProcessGlutenStatus e product tok))"
proof (cases "p_status product")
  case None
  then show ?thesis by (simp add: checkAndProcessGlutenStatus_def)
next
  case (Some st)
  obtain r evs where t: "checkAndProcessGlutenStatus_try e product st tok = (r, evs)"
    by (cases "checkAndProcessGlutenStatus_try e product st tok")
  have "Toast ''Failed to Record Scan'' descr b \<notin> set evs"
    using check_try_no_scan_failure[of descr b e product st tok] t by simp
  then show ?thesis
    using Some t by (cases r) (simp_all add: checkAndProcessGlutenStatus_def)
qed

lemma check_returns:
  "\<exists>r. fst (checkAndProcessGlutenStatus e product tok) = Inr r"
proof (cases "p_status product")
  case None
  then show ?thesis by (simp add: checkAndProcessGlutenStatus_def)
next
  case (Some st)
  obtain r evs where t: "checkAndProcessGlutenStatus_try e product st tok = (r, evs)"
    by (cases "checkAndProcessGlutenStatus_try e product st tok")
  show ?thesis
    using Some t by (cases r) (simp_all add: checkAndProcessGlutenStatus_def)
qed

text \<open>
  C9. Whatever the surroundings answer, \<open>onSuccess\<close> first shows the notification
  \<open>Scan Recorded!\<close> and ends the scanning indicator; everything the staleness check
  does comes after these two events. The callback returns normally (no exception
  leaves it, so the mutation never reports an error for it), no notification
  \<open>Failed to Record Scan\<close> is shown, and the check itself returns normally for every
  product and token.
\<close>

theorem C9_check_failure_is_not_scan_failure:
  "(\<exists>evs. onSuccess e u d =
      (Inr (), Toast ''Scan Recorded!''
                 (JStr (''Product (Barcode: '' @ sc_productBarcode d
                        @ '') scan has been added to your journal.'')) False
               # SetIsScanning False # evs)
     \<and> (\<forall>descr b. Toast ''Failed to Record Scan'' descr b \<notin> set evs))
   \<and> (\<exists>r. fst (checkAndProcessGlutenStatus e product tok) = Inr r)"
proof (rule conjI)
  show "\<exists>r. fst (checkAndProcessGlutenStatus e product tok) = Inr r"
    by (rule check_returns)
  show "\<exists>evs. onSuccess e u d =
      (Inr (), Toast ''Scan Recorded!''
                 (JStr (''Product (Barcode: '' @ sc_productBarcode d
                        @ '') scan has been added to your journal.'')) False
               # SetIsScanning False # evs)
     \<and> (\<forall>descr b. Toast ''Failed to Record Scan'' descr b \<notin> set evs)"
  proof (cases "sc_product d")
    case None
    then show ?thesis by (simp add: onSuccess_def onSuccess_tail_def Let_def)
  next
    case (Some sp)
    show ?thesis
    proof (cases "sp_createdAt sp \<noteq> [] \<and> sp_status sp \<noteq> None
                    \<and> (\<exists>i. sp_ingredients sp = JStr i)")
      case False
      then show ?thesis
        using Some
        by (auto simp: onSuccess_def onSuccess_tail_def Let_def
              split: option.splits jsval.splits bool.splits)
    next
      case True
      then obtain st ingr where h: "sp_createdAt sp \<noteq> []" "sp_status sp = Some st"
          "sp_ingredients sp = JStr ingr"
        by auto
      obtain r ev1 where
        c: "checkAndProcessGlutenStatus e (as_ProductInScan sp ingr) (token u) = (r, ev1)"
        by (cases "checkAndProcessGlutenStatus e (as_ProductInScan sp ingr) (token u)")
      obtain v where r: "r = Inr v"
        using check_returns[of e "as_ProductInScan sp ingr" "token u"] c by auto
      have n: "\<And>descr b. Toast ''Failed to Record Scan'' descr b \<notin> set ev1"
        using check_no_scan_failure[of _ _ e "as_ProductInScan sp ingr" "token u"] c by simp
      show ?thesis
        using Some h c r n by (simp add: onSuccess_def onSuccess_tail_def Let_def)
    qed
  qed
qed

text \<open>
  A scan of the stale sample product while the Gemini API cannot be reached: the check
  fails, the callback still returns normally, with the success notification first and
  the check's own failure notification after it.
\<close>

theorem C9_check_failure_is_not_scan_failure_witness:
  "onSuccess (sample_env\<lparr>reply_classifier := FetchThrows ''Failed to fetch''\<rparr>) sample_ui
     \<lparr>sc_productBarcode = ''0001'',
      sc_product = Some \<lparr>sp_barcode = ''0001'', sp_name = ''Granola Bar'',
                         sp_ingredients = JStr ''oats, honey'',
                         sp_createdAt = ''2024-01-01T00:00:00.000Z'',
                         sp_status = Some \<lparr>st_status = ''gluten-free'',
                                           st_explanation = Some ''certified''\<rparr>\<rparr>\<rparr>
   = (Inr (),
      [Toast ''Scan Recorded!''
         (JStr ''Product (Barcode: 0001) scan has been added to your journal.'') False,
       SetIsScanning False,
       ClassifierCall \<lparr>productName = ''Granola Bar'', ingredients = ''oats, honey'',
                        currentStatus = Some ''gluten-free''\<rparr>,
       Fetch GeminiGenerateContent (FetchThrows ''Failed to fetch''),
       Toast ''AI Gluten Check Failed''
         (JStr ''Gemini API for gluten check failed: Failed to fetch'') True,
       InvalidateQueries [''recentScans''], InvalidateQueries [''currentUser''],
       InvalidateQueries [''product'', ''0001'']])"
proof -
  have "onSuccess (sample_env\<lparr>reply_classifier := FetchThrows ''Failed to fetch''\<rparr>) sample_ui
     \<lparr>sc_productBarcode = ''0001'',
      sc_product = Some \<lparr>sp_barcode = ''0001'', sp_name = ''Granola Bar'',
                         sp_ingredients = JStr ''oats, honey'',
                         sp_createdAt = ''2024-01-01T00:00:00.000Z'',
                         sp_status = Some \<lparr>st_status = ''gluten-free'',
                                           st_explanation = Some ''certified''\<rparr>\<rparr>\<rparr>
   = (Inr (),
      [Toast ''Scan Recorded!''
         (JStr ''Product (Barcode: 0001) scan has been added to your journal.'') False,
       SetIsScanning False,
       ClassifierCall \<lparr>productName = ''Granola Bar'', ingredients = ''oats, honey'',
                        currentStatus = Some ''gluten-free''\<rparr>,
       Fetch GeminiGenerateContent (FetchThrows ''Failed to fetch''),
       Toast ''AI Gluten Check Failed''
         (JStr ''Gemini API for gluten check failed: Failed to fetch'') True,
       InvalidateQueries [''recentScans''], InvalidateQueries [''currentUser''],
       InvalidateQueries [''product'', ''0001'']])"
    by code_simp
  then show ?thesis
    using C9_check_failure_is_not_scan_failure by simp
qed

section \<open>The external catalog fallback\<close>

lemma handleApiError_truthy: "js_truthy (error (handleApiError st statusText body))"
  by (auto simp: handleApiError_def js_or_def split: sum.splits)

lemma handleApiError_status: "status (handleApiError st statusText body) = st"
  by (auto simp: handleApiError_def split: sum.splits)

lemma found_product_response:
  assumes "found_product (reply_off e) = Some product"
  shows "\<exists>st statusText offData.
           reply_off e = Response st statusText (Inr offData) \<and> response_ok st
           \<and> \<not> js_nullish offData
           \<and> \<not> js_strict_eq (js_prop offData ''status'') (JNum 0)
           \<and> js_truthy (js_prop offData ''product'')
           \<and> product = js_prop offData ''product''"
  using assms
  by (auto simp: found_product_def split: fetch_outcome.splits sum.splits if_splits)

lemma found_product_events:
  assumes "found_product (reply_off e) = Some product" and "t \<noteq> []"
  shows "snd (fetchProductFromOpenFoodFacts e b (Some t)) =
           [Fetch (OffGetProduct b) (reply_off e),
            Fetch (ProductsPost (productPayload_of b product) t) (reply_products e)]"
proof -
  obtain st statusText offData where
    r: "reply_off e = Response st statusText (Inr offData)" "response_ok st"
      "\<not> js_nullish offData" "\<not> js_strict_eq (js_prop offData ''status'') (JNum 0)"
      "js_truthy (js_prop offData ''product'')" "product = js_prop offData ''product''"
    using found_product_response[OF assms(1)] by blast
  then show ?thesis
    using assms(2)
    by (simp add: fetchProductFromOpenFoodFacts_def openFoodFactsApi_getProduct_def apiFetch_def
          productApi_createProduct_def Let_def split: prod.splits)
qed

lemma refused_error:
  assumes "refused r"
  shows "js_truthy (error (apiFetch r))"
  using assms
  by (cases r) (simp_all add: refused_def apiFetch_def handleApiError_truthy)

lemma found_product_refused:
  assumes "found_product (reply_off e) = Some product" and "t \<noteq> []"
    and "refused (reply_products e)"
  shows "fst (fetchProductFromOpenFoodFacts e b (Some t)) =
           off_failure ''DB_SAVE_FAILED''
             (JStr (''Failed to save product to our DB: ''
                    @ js_ToString (error (apiFetch (reply_products e)))))"
proof -
  obtain st statusText offData where
    r: "reply_off e = Response st statusText (Inr offData)" "response_ok st"
      "\<not> js_nullish offData" "\<not> js_strict_eq (js_prop offData ''status'') (JNum 0)"
      "js_truthy (js_prop offData ''product'')" "product = js_prop offData ''product''"
    using found_product_response[OF assms(1)] by blast
  then show ?thesis
    using assms(2) refused_error[OF assms(3)]
    by (simp add: fetchProductFromOpenFoodFacts_def openFoodFactsApi_getProduct_def apiFetch_def
          productApi_createProduct_def Let_def split: prod.splits)
qed

lemma unreadable_answer_result:
  assumes "upstream_error (reply_off e)" and "offData_of (reply_off e) = None"
  shows "\<not> success (fst (fetchProductFromOpenFoodFacts e barcode tok))
           \<and> reason (fst (fetchProductFromOpenFoodFacts e barcode tok)) \<noteq> Some ''OFF_NOT_FOUND''
           \<and> snd (fetchProductFromOpenFoodFacts e barcode tok)
               = [Fetch (OffGetProduct barcode) (reply_off e)]"
proof (cases "reply_off e")
  case (FetchThrows m)
  then show ?thesis
    by (simp add: fetchProductFromOpenFoodFacts_def openFoodFactsApi_getProduct_def apiFetch_def
          Let_def off_failure_def)
next
  case (Response st statusText body)
  show ?thesis
  proof (cases "response_ok st")
    case True
    then show ?thesis
      using assms(2) Response
      by (auto simp: offData_of_def fetchProductFromOpenFoodFacts_def off_failure_def
            openFoodFactsApi_getProduct_def apiFetch_def Let_def split: sum.splits if_splits)
  next
    case False
    then have "st \<noteq> 404"
      using assms(1) Response by (simp add: upstream_error_def)
    then show ?thesis
      using False Response
      by (simp add: fetchProductFromOpenFoodFacts_def openFoodFactsApi_getProduct_def apiFetch_def
            Let_def handleApiError_truthy handleApiError_status off_failure_def)
  qed
qed

lemma offData_of_response:
  assumes "offData_of r = Some d"
  shows "\<exists>st statusText. r = Response st statusText (Inr d) \<and> response_ok st \<and> \<not> js_nullish d"
  using assms
  by (auto simp: offData_of_def split: fetch_outcome.splits sum.splits if_splits)

lemma lacks_product_result:
  assumes "offData_of (reply_off e) = Some d" and "\<not> js_truthy (js_prop d ''product'')"
  shows "fetchProductFromOpenFoodFacts e barcode tok
           = (off_failure ''OFF_NOT_FOUND'' JUndefined,
              [Fetch (OffGetProduct barcode) (reply_off e)])"
proof -
  obtain st statusText where
    "reply_off e = Response st statusText (Inr d)" "response_ok st" "\<not> js_nullish d"
    using offData_of_response[OF assms(1)] by blast
  then show ?thesis
    using assms(2)
    by (simp add: fetchProductFromOpenFoodFacts_def openFoodFactsApi_getProduct_def apiFetch_def
          Let_def)
qed

lemma odd_product_found:
  assumes "upstream_error (reply_off e)" and "offData_of (reply_off e) = Some d"
    and "js_truthy (js_prop d ''product'')"
  shows "found_product (reply_off e) = Some (js_prop d ''product'')"
    and "productPayload_of b (js_prop d ''product'')
           = \<lparr>pp_barcode = b, pp_name = JStr ''Unknown Product'', pp_ingredients = JStr [],
              pp_pictureUrl = JStr []\<rparr>"
proof -
  obtain st statusText where
    r: "reply_off e = Response st statusText (Inr d)" "response_ok st" "\<not> js_nullish d"
    using offData_of_response[OF assms(2)] by blast
  then have m: "\<not> reports_no_entry d" "\<not> carries_record d"
    using assms(1) by (simp_all add: upstream_error_def malformed_answer_def)
  obtain kvs where d: "d = JObj kvs"
    using assms(3) by (cases d) simp_all
  obtain p where p: "map_of kvs ''product'' = Some p" "js_prop d ''product'' = p"
    using assms(3) d by (cases "map_of kvs ''product''") simp_all
  have np: "js_prop p k = JUndefined" for k
    using m(2) d p(1) by (cases p) (simp_all add: carries_record_def)
  have "\<not> js_strict_eq (js_prop d ''status'') (JNum 0)"
  proof (cases "map_of kvs ''status''")
    case None
    then show ?thesis
      using d by simp
  next
    case (Some v)
    then have "v \<noteq> JNum 0"
      using m(1) d by (simp add: reports_no_entry_def)
    then show ?thesis
      using d Some by (cases v) simp_all
  qed
  then show "found_product (reply_off e) = Some (js_prop d ''product'')"
    using r assms(3) by (simp add: found_product_def)
  show "productPayload_of b (js_prop d ''product'')
           = \<lparr>pp_barcode = b, pp_name = JStr ''Unknown Product'', pp_ingredients = JStr [],
              pp_pictureUrl = JStr []\<rparr>"
    by (simp add: productPayload_of_def p(2) np js_or_def)
qed

lemma found_product_no_dialog:
  assumes "found_product (reply_off e) = Some product"
  shows "reason (fst (fetchProductFromOpenFoodFacts e b tok)) \<noteq> Some ''OFF_NOT_FOUND''"
proof -
  obtain st statusText offData where
    r: "reply_off e = Response st statusText (Inr offData)" "response_ok st"
      "\<not> js_nullish offData" "\<not> js_strict_eq (js_prop offData ''status'') (JNum 0)"
      "js_truthy (js_prop offData ''product'')" "product = js_prop offData ''product''"
    using found_product_response[OF assms(1)] by blast
  then show ?thesis
    by (simp add: fetchProductFromOpenFoodFacts_def openFoodFactsApi_getProduct_def apiFetch_def
          productApi_createProduct_def off_failure_def Let_def
          split: prod.splits option.splits)
qed

lemma fetch_events_no_dialog:
  "SetShowUploadModal True \<notin> set (snd (fetchProductFromOpenFoodFacts e b tok))"
  "Toast title d v \<notin> set (snd (fetchProductFromOpenFoodFacts e b tok))"
  by (simp_all add: fetchProductFromOpenFoodFacts_def openFoodFactsApi_getProduct_def
        productApi_createProduct_def Let_def split: prod.splits option.splits)

lemma onError_without_dialog:
  assumes "reason (fst (fetchProductFromOpenFoodFacts e b (token u))) \<noteq> Some ''OFF_NOT_FOUND''"
    and "isProductNotFound err" and "se_barcode err = Some b" and "b \<noteq> []"
  shows "SetShowUploadModal True \<notin> set (onError e u err variables)"
    and "Toast ''Not on Open Food Facts'' d v \<notin> set (onError e u err variables)"
proof -
  obtain r evs where f: "fetchProductFromOpenFoodFacts e b (token u) = (r, evs)"
    by (cases "fetchProductFromOpenFoodFacts e b (token u)")
  have n: "SetShowUploadModal True \<notin> set evs" "Toast ''Not on Open Food Facts'' d v \<notin> set evs"
    using fetch_events_no_dialog[where e = e and b = b and tok = "token u"] f by simp_all
  show "SetShowUploadModal True \<notin> set (onError e u err variables)"
    using assms f n(1) by (simp add: onError_def processBarcode_def Let_def)
  show "Toast ''Not on Open Food Facts'' d v \<notin> set (onError e u err variables)"
    using assms f n(2) by (simp add: onError_def processBarcode_def Let_def)
qed

lemma onError_includes_lookup:
  assumes "isProductNotFound err" and "se_barcode err = Some b" and "b \<noteq> []"
  shows "set (snd (fetchProductFromOpenFoodFacts e b (token u)))
           \<subseteq> set (onError e u err variables)"
proof -
  obtain r evs where f: "fetchProductFromOpenFoodFacts e b (token u) = (r, evs)"
    by (cases "fetchProductFromOpenFoodFacts e b (token u)")
  show ?thesis
    using assms f by (auto simp: onError_def Let_def)
qed

text \<open>
  C2, as amended. The scan was refused because the backend does not know the barcode,
  and the lookup in the external catalog ends in an upstream error. What \<open>onError\<close> does
  depends on the kind of error.

  Where the lookup gives no JSON body to read - the request failed on the network, the
  catalog answered with an error status other than 404, or with a success status and a
  body that is not JSON or is \<open>null\<close> - it makes that one lookup and reports it with
  the destructive notification \<open>Product Processing Error\<close>, whose description is never
  empty. It does not open the upload dialog, shows no \<open>Not on Open Food Facts\<close> prompt,
  calls neither the Extractor nor the ObjectStore, and leaves the screen as it was with
  the scanning indicator off, so the scan can be tried again.

  Where the catalog answers with a success status and a malformed JSON body that has no
  \<open>product\<close> (or a falsy one), the answer is taken for not-found: the upload dialog is
  opened for the barcode, with the prompt \<open>Not on Open Food Facts\<close>.

  Where the malformed body has a truthy \<open>product\<close> that is not an object, the answer is
  taken for a product: no upload dialog, and with a token the candidate
  \<open>Unknown Product\<close> with no ingredients is sent to the backend.
\<close>

theorem C2_upstream_error_is_not_community_sourcing:
  assumes "upstream_error (reply_off e)"
    and "isProductNotFound err" and "se_barcode err = Some b" and "b \<noteq> []"
  shows "(offData_of (reply_off e) = None \<longrightarrow>
            (\<exists>d. js_truthy d \<and>
               onError e u err variables =
                 [SetIsScanning True,
                  Toast ''Product Not Found''
                    (JStr (''Searching Open Food Facts for barcode: '' @ b @ ''...'')) False,
                  Fetch (OffGetProduct b) (reply_off e),
                  Toast ''Product Processing Error'' d True,
                  SetIsScanning False])
            \<and> SetShowUploadModal True \<notin> set (onError e u err variables)
            \<and> (\<forall>d v. Toast ''Not on Open Food Facts'' d v \<notin> set (onError e u err variables))
            \<and> count_events is_ExtractorCall (onError e u err variables) = 0
            \<and> count_events is_ObjectStoreCall (onError e u err variables) = 0
            \<and> apply_events (onError e u err variables) u = u\<lparr>isScanning := False\<rparr>)
       \<and> (offData_of (reply_off e) = Some offData \<and> \<not> js_truthy (js_prop offData ''product'') \<longrightarrow>
            onError e u err variables =
              [SetIsScanning True,
               Toast ''Product Not Found''
                 (JStr (''Searching Open Food Facts for barcode: '' @ b @ ''...'')) False,
               Fetch (OffGetProduct b) (reply_off e),
               SetCurrentBarcodeForUpload (Some b),
               SetUploadedImages [],
               SetShowUploadModal True,
               Toast ''Not on Open Food Facts''
                 (JStr ''Please help add this product by uploading its images.'') False,
               SetIsScanning False])
       \<and> (offData_of (reply_off e) = Some offData \<and> js_truthy (js_prop offData ''product'') \<longrightarrow>
            SetShowUploadModal True \<notin> set (onError e u err variables)
            \<and> (\<forall>d v. Toast ''Not on Open Food Facts'' d v \<notin> set (onError e u err variables))
            \<and> (token u = Some t \<and> t \<noteq> [] \<longrightarrow>
                 Fetch (ProductsPost
                          \<lparr>pp_barcode = b, pp_name = JStr ''Unknown Product'',
                           pp_ingredients = JStr [], pp_pictureUrl = JStr []\<rparr> t)
                       (reply_products e)
                   \<in> set (onError e u err variables)))"
proof (intro conjI impI)
  assume none: "offData_of (reply_off e) = None"
  obtain r evs where f: "fetchProductFromOpenFoodFacts e b (token u) = (r, evs)"
    by (cases "fetchProductFromOpenFoodFacts e b (token u)")
  have "\<not> success r" "reason r \<noteq> Some ''OFF_NOT_FOUND''"
      "evs = [Fetch (OffGetProduct b) (reply_off e)]"
    using unreadable_answer_result[OF assms(1) none, of b "token u"] f by simp_all
  then have ev: "onError e u err variables =
              [SetIsScanning True,
               Toast ''Product Not Found''
                 (JStr (''Searching Open Food Facts for barcode: '' @ b @ ''...'')) False,
               Fetch (OffGetProduct b) (reply_off e),
               Toast ''Product Processing Error''
                 (js_or (message r)
                    (JStr ''Could not process product information from Open Food Facts.'')) True,
               SetIsScanning False]"
    using assms f by (simp add: onError_def Let_def)
  have d: "js_truthy (js_or (message r)
                       (JStr ''Could not process product information from Open Food Facts.''))"
    by (simp add: js_or_def)
  show "\<exists>d. js_truthy d \<and>
               onError e u err variables =
                 [SetIsScanning True,
                  Toast ''Product Not Found''
                    (JStr (''Searching Open Food Facts for barcode: '' @ b @ ''...'')) False,
                  Fetch (OffGetProduct b) (reply_off e),
                  Toast ''Product Processing Error'' d True,
                  SetIsScanning False]"
    unfolding ev using d by simp
  show "SetShowUploadModal True \<notin> set (onError e u err variables)"
    unfolding ev by simp
  show "\<forall>d v. Toast ''Not on Open Food Facts'' d v \<notin> set (onError e u err variables)"
    unfolding ev by simp
  show "count_events is_ExtractorCall (onError e u err variables) = 0"
    unfolding ev by (simp add: count_events_def)
  show "count_events is_ObjectStoreCall (onError e u err variables) = 0"
    unfolding ev by (simp add: count_events_def)
  show "apply_events (onError e u err variables) u = u\<lparr>isScanning := False\<rparr>"
    unfolding ev by (simp add: apply_events_def)
next
  assume a: "offData_of (reply_off e) = Some offData
             \<and> \<not> js_truthy (js_prop offData ''product'')"
  then have "fetchProductFromOpenFoodFacts e b (token u)
               = (off_failure ''OFF_NOT_FOUND'' JUndefined, [Fetch (OffGetProduct b) (reply_off e)])"
    using lacks_product_result by blast
  then show "onError e u err variables =
              [SetIsScanning True,
               Toast ''Product Not Found''
                 (JStr (''Searching Open Food Facts for barcode: '' @ b @ ''...'')) False,
               Fetch (OffGetProduct b) (reply_off e),
               SetCurrentBarcodeForUpload (Some b),
               SetUploadedImages [],
               SetShowUploadModal True,
               Toast ''Not on Open Food Facts''
                 (JStr ''Please help add this product by uploading its images.'') False,
               SetIsScanning False]"
    using assms by (simp add: onError_def Let_def off_failure_def)
next
  assume a: "offData_of (reply_off e) = Some offData \<and> js_truthy (js_prop offData ''product'')"
  have fp: "found_product (reply_off e) = Some (js_prop offData ''product'')"
    and pl: "productPayload_of b (js_prop offData ''product'')
               = \<lparr>pp_barcode = b, pp_name = JStr ''Unknown Product'', pp_ingredients = JStr [],
                  pp_pictureUrl = JStr []\<rparr>"
    using odd_product_found(1)[OF assms(1), where d = offData]
      odd_product_found(2)[OF assms(1), where d = offData and b = b] a by simp_all
  have nr: "reason (fst (fetchProductFromOpenFoodFacts e b (token u))) \<noteq> Some ''OFF_NOT_FOUND''"
    using found_product_no_dialog[OF fp] .
  show "SetShowUploadModal True \<notin> set (onError e u err variables)"
    using onError_without_dialog(1)[OF nr assms(2) assms(3) assms(4)] .
  show "\<forall>d v. Toast ''Not on Open Food Facts'' d v \<notin> set (onError e u err variables)"
    using onError_without_dialog(2)[OF nr assms(2) assms(3) assms(4)] by blast
  show "Fetch (ProductsPost
                          \<lparr>pp_barcode = b, pp_name = JStr ''Unknown Product'',
                           pp_ingredients = JStr [], pp_pictureUrl = JStr []\<rparr> t)
                       (reply_products e)
                   \<in> set (onError e u err variables)"
    if tk: "token u = Some t \<and> t \<noteq> []"
  proof -
    have "snd (fetchProductFromOpenFoodFacts e b (token u)) =
           [Fetch (OffGetProduct b) (reply_off e),
            Fetch (ProductsPost (productPayload_of b (js_prop offData ''product'')) t)
              (reply_products e)]"
      using found_product_events[OF fp, where t = t and b = b] tk by simp
    then have "Fetch (ProductsPost (productPayload_of b (js_prop offData ''product'')) t)
                 (reply_products e)
               \<in> set (snd (fetchProductFromOpenFoodFacts e b (token u)))"
      by simp
    then show ?thesis
      using onError_includes_lookup[OF assms(2) assms(3) assms(4), where e = e and u = u
          and variables = variables] pl
      by auto
  qed
qed

text \<open>
  Open Food Facts answers 503 with a body that is not JSON: the one lookup, then the
  error notification with the status line. It answers 200 with \<open>{"error": ...}\<close>: the
  upload dialog. It answers 200 with a \<open>product\<close> that is a text: the candidate
  \<open>Unknown Product\<close> is sent, and no dialog is opened.
\<close>

theorem C2_upstream_error_is_not_community_sourcing_witness:
  "onError env_off_down sample_ui sample_not_found sample_scanData =
     [SetIsScanning True,
      Toast ''Product Not Found'' (JStr ''Searching Open Food Facts for barcode: 0001...'') False,
      Fetch (OffGetProduct ''0001'')
        (Response 503 ''Service Unavailable'' (Inl ''Unexpected token <'')),
      Toast ''Product Processing Error'' (JStr ''API error: 503 Service Unavailable'') True,
      SetIsScanning False]
   \<and> SetShowUploadModal True
       \<notin> set (onError env_off_down sample_ui sample_not_found sample_scanData)
   \<and> SetShowUploadModal True
       \<in> set (onError env_off_garbled sample_ui sample_not_found sample_scanData)
   \<and> SetShowUploadModal True
       \<notin> set (onError env_off_odd sample_ui sample_not_found sample_scanData)
   \<and> Fetch (ProductsPost
              \<lparr>pp_barcode = ''0001'', pp_name = JStr ''Unknown Product'',
               pp_ingredients = JStr [], pp_pictureUrl = JStr []\<rparr> ''tok'')
           (reply_products env_off_odd)
       \<in> set (onError env_off_odd sample_ui sample_not_found sample_scanData)"
proof -
  have h1: "upstream_error (reply_off env_off_down)"
    and g1: "upstream_error (reply_off env_off_garbled)"
    and o1: "upstream_error (reply_off env_off_odd)"
    by code_simp+
  have h2: "isProductNotFound sample_not_found"
    and h3: "se_barcode sample_not_found = Some ''0001''"
    and h4: "''0001'' \<noteq> []"
    by (simp_all add: sample_not_found_def)
  have hn: "offData_of (reply_off env_off_down) = None"
    by code_simp
  have gn: "offData_of (reply_off env_off_garbled)
              = Some (JObj [(''error'', JStr ''service temporarily unavailable'')])
            \<and> \<not> js_truthy (js_prop (JObj [(''error'', JStr ''service temporarily unavailable'')])
                             ''product'')"
    by code_simp
  have on: "offData_of (reply_off env_off_odd)
              = Some (JObj [(''status'', JNum 1), (''product'', JStr ''moved'')])
            \<and> js_truthy (js_prop (JObj [(''status'', JNum 1), (''product'', JStr ''moved'')])
                           ''product'')"
    by code_simp
  have tk: "token sample_ui = Some ''tok'' \<and> ''tok'' \<noteq> []"
    by (simp add: sample_ui_def)
  have ev: "onError env_off_down sample_ui sample_not_found sample_scanData =
     [SetIsScanning True,
      Toast ''Product Not Found'' (JStr ''Searching Open Food Facts for barcode: 0001...'') False,
      Fetch (OffGetProduct ''0001'')
        (Response 503 ''Service Unavailable'' (Inl ''Unexpected token <'')),
      Toast ''Product Processing Error'' (JStr ''API error: 503 Service Unavailable'') True,
      SetIsScanning False]"
    by code_simp
  have p1: "SetShowUploadModal True
              \<notin> set (onError env_off_down sample_ui sample_not_found sample_scanData)"
    using C2_upstream_error_is_not_community_sourcing[OF h1 h2 h3 h4,
        where u = sample_ui and variables = sample_scanData, THEN conjunct1, THEN mp, OF hn]
    by simp
  have p2: "SetShowUploadModal True
              \<in> set (onError env_off_garbled sample_ui sample_not_found sample_scanData)"
    using C2_upstream_error_is_not_community_sourcing[OF g1 h2 h3 h4,
        where u = sample_ui and variables = sample_scanData,
        THEN conjunct2, THEN conjunct1, THEN mp, OF gn]
    by simp
  note T3 = C2_upstream_error_is_not_community_sourcing[OF o1 h2 h3 h4,
        where u = sample_ui and variables = sample_scanData,
        THEN conjunct2, THEN conjunct2, THEN mp, OF on]
  have p3: "SetShowUploadModal True
              \<notin> set (onError env_off_odd sample_ui sample_not_found sample_scanData)"
    using T3 by simp
  have p4: "Fetch (ProductsPost
              \<lparr>pp_barcode = ''0001'', pp_name = JStr ''Unknown Product'',
               pp_ingredients = JStr [], pp_pictureUrl = JStr []\<rparr> ''tok'')
           (reply_products env_off_odd)
       \<in> set (onError env_off_odd sample_ui sample_not_found sample_scanData)"
    using T3[THEN conjunct2, THEN conjunct2, THEN mp, OF tk] .
  show ?thesis
    using ev p1 p2 p3 p4 by simp
qed

text \<open>
  The claim as written fails where Open Food Facts answers 200 with the body
  \<open>{"error": "service temporarily unavailable"}\<close>: a malformed answer, taken for
  not-found, and the upload dialog is opened.
\<close>

theorem C2_counterexample:
  "upstream_error (reply_off env_off_garbled)
   \<and> onError env_off_garbled sample_ui sample_not_found sample_scanData =
       [SetIsScanning True,
        Toast ''Product Not Found'' (JStr ''Searching Open Food Facts for barcode: 0001...'')
          False,
        Fetch (OffGetProduct ''0001'')
          (Response 200 ''OK''
             (Inr (JObj [(''error'', JStr ''service temporarily unavailable'')]))),
        SetCurrentBarcodeForUpload (Some ''0001''),
        SetUploadedImages [],
        SetShowUploadModal True,
        Toast ''Not on Open Food Facts''
          (JStr ''Please help add this product by uploading its images.'') False,
        SetIsScanning False]"
  by code_simp

text \<open>
  C8, as amended. The external catalog has the product, a token is there, and the
  backend refuses the create request (as it does for a uniqueness conflict). Then the
  resolver gives up with reason \<open>DB_SAVE_FAILED\<close>, and \<open>onError\<close> ends with the
  destructive notification \<open>Product Processing Error\<close> that carries the backend's
  message: after the refused request there is no further request (no re-read) and the
  scan is not recorded again.
\<close>

theorem C8_conflict_is_reported:
  assumes "found_product (reply_off e) = Some product"
    and "refused (reply_products e)"
    and "token u = Some t" and "t \<noteq> []"
    and "isProductNotFound err" and "se_barcode err = Some b" and "b \<noteq> []"
  shows "fst (fetchProductFromOpenFoodFacts e b (token u)) =
           off_failure ''DB_SAVE_FAILED''
             (JStr (''Failed to save product to our DB: ''
                    @ js_ToString (error (apiFetch (reply_products e)))))
       \<and> onError e u err variables =
           [SetIsScanning True,
            Toast ''Product Not Found''
              (JStr (''Searching Open Food Facts for barcode: '' @ b @ ''...'')) False,
            Fetch (OffGetProduct b) (reply_off e),
            Fetch (ProductsPost (productPayload_of b product) t) (reply_products e),
            Toast ''Product Processing Error''
              (JStr (''Failed to save product to our DB: ''
                     @ js_ToString (error (apiFetch (reply_products e))))) True,
            SetIsScanning False]
       \<and> count_events is_RecordScan (onError e u err variables) = 0"
proof -
  obtain r evs where f: "fetchProductFromOpenFoodFacts e b (token u) = (r, evs)"
    by (cases "fetchProductFromOpenFoodFacts e b (token u)")
  have r: "r = off_failure ''DB_SAVE_FAILED''
             (JStr (''Failed to save product to our DB: ''
                    @ js_ToString (error (apiFetch (reply_products e)))))"
    using found_product_refused[OF assms(1) assms(4) assms(2), of b] f assms(3) by simp
  have evs: "evs = [Fetch (OffGetProduct b) (reply_off e),
                    Fetch (ProductsPost (productPayload_of b product) t) (reply_products e)]"
    using found_product_events[OF assms(1) assms(4), of b] f assms(3) by simp
  have ev: "onError e u err variables =
           [SetIsScanning True,
            Toast ''Product Not Found''
              (JStr (''Searching Open Food Facts for barcode: '' @ b @ ''...'')) False,
            Fetch (OffGetProduct b) (reply_off e),
            Fetch (ProductsPost (productPayload_of b product) t) (reply_products e),
            Toast ''Product Processing Error''
              (JStr (''Failed to save product to our DB: ''
                     @ js_ToString (error (apiFetch (reply_products e))))) True,
            SetIsScanning False]"
    using assms f r evs by (simp add: onError_def Let_def off_failure_def js_or_def)
  show ?thesis
    using f r by (simp add: ev count_events_def)
qed

text \<open>
  The claim as written fails where the backend answers the create request with
  409 \<open>Product already exists\<close>: the conflict is shown to the user as an error, and no
  scan is recorded.
\<close>

theorem C8_counterexample:
  "onError env_conflict sample_ui sample_not_found sample_scanData =
     [SetIsScanning True,
      Toast ''Product Not Found'' (JStr ''Searching Open Food Facts for barcode: 0001...'') False,
      Fetch (OffGetProduct ''0001'') off_granola,
      Fetch (ProductsPost
               \<lparr>pp_barcode = ''0001'', pp_name = JStr ''Granola Bar'',
                pp_ingredients = JStr ''oats, honey, wheat flour'', pp_pictureUrl = JStr []\<rparr>
               ''tok'')
        (Response 409 ''Conflict'' (Inr (JObj [(''message'', JStr ''Product already exists'')]))),
      Toast ''Product Processing Error''
        (JStr ''Failed to save product to our DB: Product already exists'') True,
      SetIsScanning False]
   \<and> count_events is_RecordScan
        (onError env_conflict sample_ui sample_not_found sample_scanData) = 0"
  by code_simp

theorem C8_conflict_is_reported_witness:
  "fst (fetchProductFromOpenFoodFacts env_conflict ''0001'' (token sample_ui)) =
     off_failure ''DB_SAVE_FAILED''
       (JStr ''Failed to save product to our DB: Product already exists'')
   \<and> count_events is_RecordScan
        (onError env_conflict sample_ui sample_not_found sample_scanData) = 0"
proof -
  have h1: "found_product (reply_off env_conflict)
              = Some (JObj [(''name'', JStr ''Granola Bar''),
                            (''ingredients_text'', JStr ''oats, honey, wheat flour'')])"
    by code_simp
  have h2: "refused (reply_products env_conflict)"
    by code_simp
  have h3: "token sample_ui = Some ''tok''" and h4: "''tok'' \<noteq> []"
    by (simp_all add: sample_ui_def)
  have h5: "isProductNotFound sample_not_found"
    and h6: "se_barcode sample_not_found = Some ''0001''"
    and h7: "''0001'' \<noteq> []"
    by (simp_all add: sample_not_found_def)
  have m: "js_ToString (error (apiFetch (reply_products env_conflict)))
             = ''Product already exists''"
    by code_simp
  note T = C8_conflict_is_reported[OF h1 h2 h3 h4 h5 h6 h7, of sample_scanData]
  have "fst (fetchProductFromOpenFoodFacts env_conflict ''0001'' (token sample_ui)) =
     off_failure ''DB_SAVE_FAILED''
       (JStr ''Failed to save product to our DB: Product already exists'')"
    using T[THEN conjunct1] m by simp
  moreover have "count_events is_RecordScan
        (onError env_conflict sample_ui sample_not_found sample_scanData) = 0"
    by (rule T[THEN conjunct2, THEN conjunct2])
  ultimately show ?thesis
    by simp
qed

text \<open>
  C7, as amended. For every \<open>Found\<close> result and a token, the candidate sent to the
  backend takes its name from \<open>product_name\<close>, \<open>product_name_en\<close>, \<open>name\<close> in this
  order, \<open>Unknown Product\<close> if all are empty; its ingredients, one value as the
  catalog gave it, from \<open>ingredients_text_with_allergens\<close>, \<open>ingredients_text\<close>,
  \<open>ingredients_text_en\<close>, \<open>ingredients_text_debug\<close>, the empty string if all are
  empty; its picture URL from \<open>image_front_url\<close>, \<open>image_url\<close>, \<open>image_small_url\<close>,
  the empty string if all are empty. The candidate carries no status: where the store
  of the specification accepts it for a new barcode, the record it creates holds the
  candidate's fields and the label \<open>unknown\<close>.
\<close>

theorem C7_candidate_normalization:
  assumes "found_product (reply_off e) = Some product" and "t \<noteq> []"
  shows "snd (fetchProductFromOpenFoodFacts e b (Some t)) =
           [Fetch (OffGetProduct b) (reply_off e),
            Fetch (ProductsPost
                     \<lparr>pp_barcode = b,
                      pp_name =
                        first_truthy [js_prop product ''product_name'',
                                      js_prop product ''product_name_en'',
                                      js_prop product ''name'']
                          (JStr ''Unknown Product''),
                      pp_ingredients =
                        first_truthy [js_prop product ''ingredients_text_with_allergens'',
                                      js_prop product ''ingredients_text'',
                                      js_prop product ''ingredients_text_en'',
                                      js_prop product ''ingredients_text_debug'']
                          (JStr []),
                      pp_pictureUrl =
                        first_truthy [js_prop product ''image_front_url'',
                                      js_prop product ''image_url'',
                                      js_prop product ''image_small_url'']
                          (JStr [])\<rparr> t)
              (reply_products e)]
       \<and> (c b = None \<and> reply_products e = Response s statusText body \<and> response_ok s \<longrightarrow>
            map_option (\<lambda>p. (prod_name p, prod_ingredients p, prod_pictureUrl p,
                               label (prod_status p)))
              (catalog_after (now e) (snd (fetchProductFromOpenFoodFacts e b (Some t))) c b)
            = Some (pp_name (productPayload_of b product),
                    pp_ingredients (productPayload_of b product),
                    pp_pictureUrl (productPayload_of b product), JStr ''unknown''))"
proof (intro conjI impI)
  have p: "productPayload_of b product =
             \<lparr>pp_barcode = b,
              pp_name =
                first_truthy [js_prop product ''product_name'',
                              js_prop product ''product_name_en'',
                              js_prop product ''name'']
                  (JStr ''Unknown Product''),
              pp_ingredients =
                first_truthy [js_prop product ''ingredients_text_with_allergens'',
                              js_prop product ''ingredients_text'',
                              js_prop product ''ingredients_text_en'',
                              js_prop product ''ingredients_text_debug'']
                  (JStr []),
              pp_pictureUrl =
                first_truthy [js_prop product ''image_front_url'',
                              js_prop product ''image_url'',
                              js_prop product ''image_small_url'']
                  (JStr [])\<rparr>"
    by (simp add: productPayload_of_def js_or_def)
  show "snd (fetchProductFromOpenFoodFacts e b (Some t)) =
           [Fetch (OffGetProduct b) (reply_off e),
            Fetch (ProductsPost
                     \<lparr>pp_barcode = b,
                      pp_name =
                        first_truthy [js_prop product ''product_name'',
                                      js_prop product ''product_name_en'',
                                      js_prop product ''name'']
                          (JStr ''Unknown Product''),
                      pp_ingredients =
                        first_truthy [js_prop product ''ingredients_text_with_allergens'',
                                      js_prop product ''ingredients_text'',
                                      js_prop product ''ingredients_text_en'',
                                      js_prop product ''ingredients_text_debug'']
                          (JStr []),
                      pp_pictureUrl =
                        first_truthy [js_prop product ''image_front_url'',
                                      js_prop product ''image_url'',
                                      js_prop product ''image_small_url'']
                          (JStr [])\<rparr> t)
              (reply_products e)]"
    using found_product_events[OF assms, of b] p by simp
next
  assume a: "c b = None \<and> reply_products e = Response s statusText body \<and> response_ok s"
  have pb: "pp_barcode (productPayload_of b product) = b"
    by (simp add: productPayload_of_def)
  show "map_option (\<lambda>p. (prod_name p, prod_ingredients p, prod_pictureUrl p,
                           label (prod_status p)))
          (catalog_after (now e) (snd (fetchProductFromOpenFoodFacts e b (Some t))) c b)
        = Some (pp_name (productPayload_of b product),
                pp_ingredients (productPayload_of b product),
                pp_pictureUrl (productPayload_of b product), JStr ''unknown'')"
    using a pb
    by (simp add: found_product_events[OF assms, of b] catalog_after_Cons catalog_after_Nil
          CatalogStore_create_def Let_def)
qed

text \<open>
  The scenario of the specification: barcode 0001 is new, the external catalog returns
  the name \<open>Granola Bar\<close> and the ingredients text. The candidate holds that text, and
  the record created from it holds it too, with the label \<open>unknown\<close>.
\<close>

theorem C7_candidate_normalization_witness:
  "snd (fetchProductFromOpenFoodFacts env_found ''0001'' (Some ''tok'')) =
     [Fetch (OffGetProduct ''0001'') off_granola,
      Fetch (ProductsPost
               \<lparr>pp_barcode = ''0001'', pp_name = JStr ''Granola Bar'',
                pp_ingredients = JStr ''oats, honey, wheat flour'', pp_pictureUrl = JStr []\<rparr>
               ''tok'')
        (Response 201 ''Created'' (Inr (JObj [(''barcode'', JStr ''0001'')])))]
   \<and> map_option (\<lambda>p. (prod_name p, prod_ingredients p, prod_pictureUrl p, label (prod_status p)))
        (catalog_after (now env_found)
           (snd (fetchProductFromOpenFoodFacts env_found ''0001'' (Some ''tok''))) Map.empty ''0001'')
      = Some (JStr ''Granola Bar'', JStr ''oats, honey, wheat flour'', JStr [], JStr ''unknown'')"
proof -
  have h1: "found_product (reply_off env_found)
              = Some (JObj [(''name'', JStr ''Granola Bar''),
                            (''ingredients_text'', JStr ''oats, honey, wheat flour'')])"
    by code_simp
  have h2: "''tok'' \<noteq> []"
    by simp
  have r: "reply_off env_found = off_granola"
      "reply_products env_found
         = Response 201 ''Created'' (Inr (JObj [(''barcode'', JStr ''0001'')]))"
      "response_ok 201"
    by (simp_all add: env_found_def sample_env_def response_ok_def)
  have p: "productPayload_of ''0001''
             (JObj [(''name'', JStr ''Granola Bar''),
                    (''ingredients_text'', JStr ''oats, honey, wheat flour'')])
           = \<lparr>pp_barcode = ''0001'', pp_name = JStr ''Granola Bar'',
              pp_ingredients = JStr ''oats, honey, wheat flour'', pp_pictureUrl = JStr []\<rparr>"
    by code_simp
  note T = C7_candidate_normalization[OF h1 h2, where b = "''0001''" and c = Map.empty
      and s = 201 and statusText = "''Created''"
      and body = "Inr (JObj [(''barcode'', JStr ''0001'')])"]
  have "snd (fetchProductFromOpenFoodFacts env_found ''0001'' (Some ''tok'')) =
     [Fetch (OffGetProduct ''0001'') off_granola,
      Fetch (ProductsPost
               \<lparr>pp_barcode = ''0001'', pp_name = JStr ''Granola Bar'',
                pp_ingredients = JStr ''oats, honey, wheat flour'', pp_pictureUrl = JStr []\<rparr>
               ''tok'')
        (Response 201 ''Created'' (Inr (JObj [(''barcode'', JStr ''0001'')])))]"
    using T[THEN conjunct1] r by (simp add: js_or_def)
  moreover have "map_option (\<lambda>p. (prod_name p, prod_ingredients p, prod_pictureUrl p,
                                   label (prod_status p)))
        (catalog_after (now env_found)
           (snd (fetchProductFromOpenFoodFacts env_found ''0001'' (Some ''tok''))) Map.empty ''0001'')
      = Some (JStr ''Granola Bar'', JStr ''oats, honey, wheat flour'', JStr [], JStr ''unknown'')"
    using T[THEN conjunct2] r p by simp
  ultimately show ?thesis
    by simp
qed

text \<open>
  The claim as written fails on the ingredients: the text
  \<open>oats, honey, wheat flour\<close> is sent as one string, not as the sequence of its three
  parts.
\<close>

theorem C7_counterexample:
  "snd (fetchProductFromOpenFoodFacts env_found ''0001'' (Some ''tok'')) ! 1 =
     Fetch (ProductsPost
              \<lparr>pp_barcode = ''0001'', pp_name = JStr ''Granola Bar'',
               pp_ingredients = JStr ''oats, honey, wheat flour'', pp_pictureUrl = JStr []\<rparr>
              ''tok'')
       (Response 201 ''Created'' (Inr (JObj [(''barcode'', JStr ''0001'')])))
   \<and> JStr ''oats, honey, wheat flour'' \<noteq> JArr [JStr ''oats'', JStr ''honey'', JStr ''wheat flour'']"
  by code_simp

section \<open>Community sourcing\<close>

lemma uploadFileToS3_calls:
  "count_events is_ObjectStoreCall (snd (uploadFileToS3 e f pre)) = 1"
  "count_events is_ExtractorCall (snd (uploadFileToS3 e f pre)) = 0"
  "count_events is_ProductsPost (snd (uploadFileToS3 e f pre)) = 0"
  "count_events is_StatusPatch (snd (uploadFileToS3 e f pre)) = 0"
  "count_events is_RecordScan (snd (uploadFileToS3 e f pre)) = 0"
  by (simp_all add: uploadFileToS3_def count_events_def split: option.splits s3_outcome.splits)

lemma uploadImageToServer_result:
  "uploadImageToServer e f pre =
     (if str_truthy (s3_error (fst (uploadFileToS3 e f pre)))
      then Inl (Error (case s3_error (fst (uploadFileToS3 e f pre)) of Some m \<Rightarrow> m | None \<Rightarrow> []))
      else Inr (case s3_fileUrl (fst (uploadFileToS3 e f pre)) of Some u \<Rightarrow> u | None \<Rightarrow> []),
      snd (uploadFileToS3 e f pre))"
  by (simp add: uploadImageToServer_def Let_def split: prod.splits)

lemma generateProductInfo_calls:
  "count_events is_ExtractorCall (snd (generateProductInfo e imgs prompt)) = 1"
  "count_events is_ObjectStoreCall (snd (generateProductInfo e imgs prompt)) = 0"
  "count_events is_ProductsPost (snd (generateProductInfo e imgs prompt)) = 0"
  "count_events is_StatusPatch (snd (generateProductInfo e imgs prompt)) = 0"
  "count_events is_RecordScan (snd (generateProductInfo e imgs prompt)) = 0"
  by (simp_all add: generateProductInfo_def count_events_def)

lemma generateProductInfo_fst:
  "fst (generateProductInfo e imgs prompt) = generateProductInfo_result e"
  by (simp add: generateProductInfo_def)

text \<open>The \<open>try\<close> block, case by case.\<close>

lemma try_unreadable:
  assumes "readAll e (uploadedImages u) = Inl ex"
  shows "handleMultipleImageUpload_try e u b = (Inl ex, [])"
  using assms by (simp add: handleMultipleImageUpload_try_def)

lemma try_extractor_failed:
  assumes "readAll e (uploadedImages u) = Inr imgs" and "\<not> extractor_ok e"
  shows "\<exists>ex. handleMultipleImageUpload_try e u b
                = (Inl ex, snd (generateProductInfo e imgs (extraction_prompt b)))"
proof -
  obtain r ev1 where g: "generateProductInfo e imgs (extraction_prompt b) = (r, ev1)"
    by (cases "generateProductInfo e imgs (extraction_prompt b)")
  have r: "r = generateProductInfo_result e"
    using generateProductInfo_fst[of e imgs "extraction_prompt b"] g by simp
  show ?thesis
    using assms g r
    by (auto simp: handleMultipleImageUpload_try_def extractor_ok_def Let_def)
qed

lemma try_upload_failed:
  assumes "readAll e (uploadedImages u) = Inr imgs" and "extractor_ok e"
    and "uploadedImages u = first # others"
    and "str_truthy (s3_error (fst (uploadFileToS3 e first (''products/'' @ b))))"
  shows "\<exists>ex. handleMultipleImageUpload_try e u b
                = (Inl ex, snd (generateProductInfo e imgs (extraction_prompt b))
                           @ snd (uploadFileToS3 e first (''products/'' @ b)))"
proof -
  obtain r ev1 where g: "generateProductInfo e imgs (extraction_prompt b) = (r, ev1)"
    by (cases "generateProductInfo e imgs (extraction_prompt b)")
  have r: "r = generateProductInfo_result e"
    using generateProductInfo_fst[of e imgs "extraction_prompt b"] g by simp
  show ?thesis
    using assms g r
    by (simp add: handleMultipleImageUpload_try_def extractor_ok_def Let_def
          uploadImageToServer_result)
qed

lemma try_upload_done:
  assumes "readAll e (uploadedImages u) = Inr imgs" and "extractor_ok e"
    and "uploadedImages u = first # others"
    and "\<not> str_truthy (s3_error (fst (uploadFileToS3 e first (''products/'' @ b))))"
  shows "\<exists>rest. snd (handleMultipleImageUpload_try e u b)
                  = snd (generateProductInfo e imgs (extraction_prompt b))
                    @ snd (uploadFileToS3 e first (''products/'' @ b)) @ rest
                \<and> count_events is_ExtractorCall rest = 0
                \<and> count_events is_ObjectStoreCall rest = 0
                \<and> (str_truthy (token u) \<longrightarrow> count_events is_ProductsPost rest = 1)"
proof -
  obtain r ev1 where g: "generateProductInfo e imgs (extraction_prompt b) = (r, ev1)"
    by (cases "generateProductInfo e imgs (extraction_prompt b)")
  have r: "r = generateProductInfo_result e"
    using generateProductInfo_fst[of e imgs "extraction_prompt b"] g by simp
  show ?thesis
    using assms g r
    by (simp add: handleMultipleImageUpload_try_def extractor_ok_def Let_def
          uploadImageToServer_result productApi_createProduct_def processBarcode_def
          count_events_def)
qed

lemma finally_calls:
  "count_events is_ExtractorCall (handleMultipleImageUpload_finally u) = 0"
  "count_events is_ObjectStoreCall (handleMultipleImageUpload_finally u) = 0"
  "count_events is_ProductsPost (handleMultipleImageUpload_finally u) = 0"
  "count_events is_StatusPatch (handleMultipleImageUpload_finally u) = 0"
  "count_events is_RecordScan (handleMultipleImageUpload_finally u) = 0"
  by (simp_all add: handleMultipleImageUpload_finally_def count_events_def)

text \<open>The handler once the two checks at its head have passed.\<close>

lemma handle_submitted:
  assumes "4 \<le> length (uploadedImages u)" and "currentBarcodeForUpload u = Some b" and "b \<noteq> []"
    and "handleMultipleImageUpload_try e u b = (r, evs)"
  shows "handleMultipleImageUpload e u =
           [SetIsScanning True] @ evs
           @ (case r of Inr ok \<Rightarrow> []
              | Inl ex \<Rightarrow> [Toast ''AI Product Creation Failed'' (exn_message ex) True,
                            SetIsScanning False])
           @ handleMultipleImageUpload_finally u"
  using assms by (cases r) (simp_all add: handleMultipleImageUpload_def Let_def)

lemma handle_counts:
  assumes "4 \<le> length (uploadedImages u)" and "currentBarcodeForUpload u = Some b" and "b \<noteq> []"
  shows "count_events is_ExtractorCall (handleMultipleImageUpload e u)
           = count_events is_ExtractorCall (snd (handleMultipleImageUpload_try e u b))"
    and "count_events is_ObjectStoreCall (handleMultipleImageUpload e u)
           = count_events is_ObjectStoreCall (snd (handleMultipleImageUpload_try e u b))"
    and "count_events is_ProductsPost (handleMultipleImageUpload e u)
           = count_events is_ProductsPost (snd (handleMultipleImageUpload_try e u b))"
    and "count_events is_StatusPatch (handleMultipleImageUpload e u)
           = count_events is_StatusPatch (snd (handleMultipleImageUpload_try e u b))"
    and "count_events is_RecordScan (handleMultipleImageUpload e u)
           = count_events is_RecordScan (snd (handleMultipleImageUpload_try e u b))"
proof -
  obtain r evs where t: "handleMultipleImageUpload_try e u b = (r, evs)"
    by (cases "handleMultipleImageUpload_try e u b")
  note h = handle_submitted[OF assms t]
  show "count_events is_ExtractorCall (handleMultipleImageUpload e u)
           = count_events is_ExtractorCall (snd (handleMultipleImageUpload_try e u b))"
    and "count_events is_ObjectStoreCall (handleMultipleImageUpload e u)
           = count_events is_ObjectStoreCall (snd (handleMultipleImageUpload_try e u b))"
    and "count_events is_ProductsPost (handleMultipleImageUpload e u)
           = count_events is_ProductsPost (snd (handleMultipleImageUpload_try e u b))"
    and "count_events is_StatusPatch (handleMultipleImageUpload e u)
           = count_events is_StatusPatch (snd (handleMultipleImageUpload_try e u b))"
    and "count_events is_RecordScan (handleMultipleImageUpload e u)
           = count_events is_RecordScan (snd (handleMultipleImageUpload_try e u b))"
    unfolding h using t
    by (cases r; simp add: count_events_append count_events_Cons count_events_Nil finally_calls)+
qed

text \<open>
  C4, as amended. With fewer than 4 images the handler only reports the validation
  error \<open>More Images Needed\<close>: no Extractor call, no ObjectStore call. With at least
  4 images, a barcode for the dialog and every image readable, it makes exactly one
  Extractor call, and exactly one ObjectStore call if the Extractor call succeeded,
  none if it failed. With at least 4 images but no barcode for the dialog, or an image
  that cannot be read, it makes neither call. The dialog never collects more than 8
  images.
\<close>

theorem C4_image_count_and_calls:
  "(length (uploadedImages u) < 4 \<longrightarrow>
      handleMultipleImageUpload e u =
        [Toast ''More Images Needed''
           (JStr (''Please upload at least 4 images. Current: ''
                  @ show_int (int (length (uploadedImages u))))) True]
      \<and> count_events is_ExtractorCall (handleMultipleImageUpload e u) = 0
      \<and> count_events is_ObjectStoreCall (handleMultipleImageUpload e u) = 0)
   \<and> (4 \<le> length (uploadedImages u) \<and> str_truthy (currentBarcodeForUpload u)
        \<and> readAll e (uploadedImages u) = Inr imgs \<longrightarrow>
      count_events is_ExtractorCall (handleMultipleImageUpload e u) = 1
      \<and> count_events is_ObjectStoreCall (handleMultipleImageUpload e u)
          = (if extractor_ok e then 1 else 0))
   \<and> (4 \<le> length (uploadedImages u)
        \<and> (\<not> str_truthy (currentBarcodeForUpload u) \<or> readAll e (uploadedImages u) = Inl ex) \<longrightarrow>
      count_events is_ExtractorCall (handleMultipleImageUpload e u) = 0
      \<and> count_events is_ObjectStoreCall (handleMultipleImageUpload e u) = 0)
   \<and> (length prev \<le> 8 \<longrightarrow> length (addImages prev files) \<le> 8)"
proof (intro conjI impI)
  assume a: "length (uploadedImages u) < 4"
  then show m: "handleMultipleImageUpload e u =
        [Toast ''More Images Needed''
           (JStr (''Please upload at least 4 images. Current: ''
                  @ show_int (int (length (uploadedImages u))))) True]"
    by (simp add: handleMultipleImageUpload_def)
  show "count_events is_ExtractorCall (handleMultipleImageUpload e u) = 0"
    unfolding m by (simp add: count_events_def)
  show "count_events is_ObjectStoreCall (handleMultipleImageUpload e u) = 0"
    unfolding m by (simp add: count_events_def)
next
  assume a: "4 \<le> length (uploadedImages u) \<and> str_truthy (currentBarcodeForUpload u)
               \<and> readAll e (uploadedImages u) = Inr imgs"
  then obtain b where b: "currentBarcodeForUpload u = Some b" "b \<noteq> []"
    by (cases "currentBarcodeForUpload u") auto
  obtain first others where f: "uploadedImages u = first # others"
    using a by (cases "uploadedImages u") auto
  have len: "4 \<le> length (uploadedImages u)" and rd: "readAll e (uploadedImages u) = Inr imgs"
    using a by simp_all
  have "count_events is_ExtractorCall (snd (handleMultipleImageUpload_try e u b)) = 1
        \<and> count_events is_ObjectStoreCall (snd (handleMultipleImageUpload_try e u b))
            = (if extractor_ok e then 1 else 0)"
  proof (cases "extractor_ok e")
    case False
    then show ?thesis
      using try_extractor_failed[OF rd False, of b]
      by (auto simp: generateProductInfo_calls)
  next
    case True
    show ?thesis
    proof (cases "str_truthy (s3_error (fst (uploadFileToS3 e first (''products/'' @ b))))")
      case failed: True
      show ?thesis
        using try_upload_failed[OF rd True f failed] True
        by (auto simp: count_events_append generateProductInfo_calls uploadFileToS3_calls)
    next
      case uploaded: False
      show ?thesis
        using try_upload_done[OF rd True f uploaded] True
        by (auto simp: count_events_append generateProductInfo_calls uploadFileToS3_calls)
    qed
  qed
  then show "count_events is_ExtractorCall (handleMultipleImageUpload e u) = 1"
    and "count_events is_ObjectStoreCall (handleMultipleImageUpload e u)
          = (if extractor_ok e then 1 else 0)"
    using handle_counts(1,2)[OF len b, of e] by simp_all
next
  assume a: "4 \<le> length (uploadedImages u)
        \<and> (\<not> str_truthy (currentBarcodeForUpload u) \<or> readAll e (uploadedImages u) = Inl ex)"
  have "count_events is_ExtractorCall (handleMultipleImageUpload e u) = 0
        \<and> count_events is_ObjectStoreCall (handleMultipleImageUpload e u) = 0"
  proof (cases "str_truthy (currentBarcodeForUpload u)")
    case False
    then show ?thesis
      using a by (simp add: handleMultipleImageUpload_def count_events_def)
  next
    case True
    then obtain b where b: "currentBarcodeForUpload u = Some b" "b \<noteq> []"
      by (cases "currentBarcodeForUpload u") auto
    have rd: "readAll e (uploadedImages u) = Inl ex"
      using a True by simp
    have len: "4 \<le> length (uploadedImages u)"
      using a by simp
    show ?thesis
      using handle_counts(1,2)[OF len b, of e] try_unreadable[OF rd, of b]
      by (simp add: count_events_Nil)
  qed
  then show "count_events is_ExtractorCall (handleMultipleImageUpload e u) = 0"
    and "count_events is_ObjectStoreCall (handleMultipleImageUpload e u) = 0"
    by simp_all
next
  assume "length prev \<le> 8"
  then show "length (addImages prev files) \<le> 8"
    by (auto simp: addImages_def)
qed

text \<open>
  Three of the four sample images: the validation error. All four, with everything
  working: one Extractor call and one upload. Ten more images added to the four: eight.
\<close>

theorem C4_image_count_and_calls_witness:
  "handleMultipleImageUpload sample_env
     (sample_ui\<lparr>uploadedImages := take 3 (uploadedImages sample_ui)\<rparr>)
     = [Toast ''More Images Needed'' (JStr ''Please upload at least 4 images. Current: 3'') True]
   \<and> count_events is_ExtractorCall (handleMultipleImageUpload sample_env sample_ui) = 1
   \<and> count_events is_ObjectStoreCall (handleMultipleImageUpload sample_env sample_ui) = 1
   \<and> length (addImages (uploadedImages sample_ui)
               (uploadedImages sample_ui @ uploadedImages sample_ui @ uploadedImages sample_ui)) = 8"
proof -
  have l3: "length (uploadedImages (sample_ui\<lparr>uploadedImages := take 3 (uploadedImages sample_ui)\<rparr>)) < 4"
    by (simp add: sample_ui_def)
  have s3: "show_int (int (length (uploadedImages
              (sample_ui\<lparr>uploadedImages := take 3 (uploadedImages sample_ui)\<rparr>)))) = ''3''"
    by code_simp
  have a: "4 \<le> length (uploadedImages sample_ui) \<and> str_truthy (currentBarcodeForUpload sample_ui)
           \<and> readAll sample_env (uploadedImages sample_ui)
               = Inr [''data:image/jpeg;base64,front.jpg'', ''data:image/jpeg;base64,back.jpg'',
                      ''data:image/jpeg;base64,left.jpg'', ''data:image/jpeg;base64,right.jpg'']"
    by code_simp
  have ok: "extractor_ok sample_env"
    by code_simp
  have l8: "length (addImages (uploadedImages sample_ui)
               (uploadedImages sample_ui @ uploadedImages sample_ui @ uploadedImages sample_ui)) = 8"
    by code_simp
  have "handleMultipleImageUpload sample_env
     (sample_ui\<lparr>uploadedImages := take 3 (uploadedImages sample_ui)\<rparr>)
     = [Toast ''More Images Needed'' (JStr ''Please upload at least 4 images. Current: 3'') True]"
    using C4_image_count_and_calls[THEN conjunct1, THEN mp, OF l3, THEN conjunct1, of sample_env] s3
    by simp
  moreover have "count_events is_ExtractorCall (handleMultipleImageUpload sample_env sample_ui) = 1
     \<and> count_events is_ObjectStoreCall (handleMultipleImageUpload sample_env sample_ui) = 1"
    using C4_image_count_and_calls[THEN conjunct2, THEN conjunct1, THEN mp, OF a] ok
    by simp
  ultimately show ?thesis
    using l8 by simp
qed

text \<open>
  The claim as written fails where the Extractor call fails: four images, a barcode,
  the Gemini API unreachable. One Extractor call, no ObjectStore call.
\<close>

theorem C4_counterexample:
  "length (uploadedImages sample_ui) = 4
   \<and> count_events is_ExtractorCall (handleMultipleImageUpload env_extractor_down sample_ui) = 1
   \<and> count_events is_ObjectStoreCall (handleMultipleImageUpload env_extractor_down sample_ui) = 0"
  by code_simp

lemma apply_events_token: "token (apply_events evs u) = token u"
proof -
  have "token (fold apply_event evs u) = token u"
  proof (induction evs arbitrary: u)
    case Nil
    then show ?case by simp
  next
    case (Cons ev evs)
    have "token (apply_event ev u) = token u"
      by (cases ev) simp_all
    then show ?case
      using Cons.IH[of "apply_event ev u"] by simp
  qed
  then show ?thesis
    by (simp add: apply_events_def)
qed

lemma try_reads:
  assumes "uploadedImages u' = uploadedImages u" and "token u' = token u"
  shows "handleMultipleImageUpload_try e u' b = handleMultipleImageUpload_try e u b"
  by (simp only: handleMultipleImageUpload_try_def assms)

text \<open>
  C5. A submission in which the Extractor call fails, or the upload of the first image
  fails, sends no create request and starts no scan, so the store holds what it held.
  The caller may retry: once the same images and the barcode are in the dialog again
  (the handler empties both after an attempt), a submission for which the Extractor
  and the upload succeed sends the create request.
\<close>

theorem C5_failed_submission_creates_nothing:
  assumes "\<not> extractor_ok e \<or> first_upload_failed e u"
  shows "count_events is_ProductsPost (handleMultipleImageUpload e u) = 0
       \<and> count_events is_RecordScan (handleMultipleImageUpload e u) = 0
       \<and> catalog_after t (handleMultipleImageUpload e u) c = c
       \<and> (4 \<le> length (uploadedImages u) \<and> str_truthy (currentBarcodeForUpload u)
            \<and> str_truthy (token u) \<and> readAll e' (uploadedImages u) = Inr imgs
            \<and> extractor_ok e' \<and> \<not> first_upload_failed e' u \<longrightarrow>
            count_events is_ProductsPost
              (handleMultipleImageUpload e'
                 ((apply_events (handleMultipleImageUpload e u) u)
                    \<lparr>uploadedImages := uploadedImages u,
                     currentBarcodeForUpload := currentBarcodeForUpload u\<rparr>)) = 1)"
proof -
  have none: "count_events is_ProductsPost (handleMultipleImageUpload e u) = 0
       \<and> count_events is_RecordScan (handleMultipleImageUpload e u) = 0
       \<and> count_events is_StatusPatch (handleMultipleImageUpload e u) = 0"
  proof (cases "4 \<le> length (uploadedImages u) \<and> str_truthy (currentBarcodeForUpload u)")
    case False
    then show ?thesis
      by (auto simp: handleMultipleImageUpload_def count_events_def)
  next
    case True
    then obtain b where b: "currentBarcodeForUpload u = Some b" "b \<noteq> []"
      by (cases "currentBarcodeForUpload u") auto
    obtain first others where f: "uploadedImages u = first # others"
      using True by (cases "uploadedImages u") auto
    have len: "4 \<le> length (uploadedImages u)"
      using True by simp
    have "count_events is_ProductsPost (snd (handleMultipleImageUpload_try e u b)) = 0
        \<and> count_events is_RecordScan (snd (handleMultipleImageUpload_try e u b)) = 0
        \<and> count_events is_StatusPatch (snd (handleMultipleImageUpload_try e u b)) = 0"
    proof (cases "readAll e (uploadedImages u)")
      case (Inl ex)
      then show ?thesis
        using try_unreadable[OF Inl, of b] by (simp add: count_events_Nil)
    next
      case (Inr imgs)
      show ?thesis
      proof (cases "extractor_ok e")
        case False
        then show ?thesis
          using try_extractor_failed[OF Inr False, of b]
          by (auto simp: generateProductInfo_calls)
      next
        case True
        then have "str_truthy (s3_error (fst (uploadFileToS3 e first (''products/'' @ b))))"
          using assms f b by (simp add: first_upload_failed_def)
        then show ?thesis
          using try_upload_failed[OF Inr True f, of b]
          by (auto simp: count_events_append generateProductInfo_calls uploadFileToS3_calls)
      qed
    qed
    then show ?thesis
      using handle_counts(3,4,5)[OF len b, of e] by simp
  qed
  have same: "catalog_after t (handleMultipleImageUpload e u) c = c"
    using none by (simp add: catalog_after_no_writes)
  have retry: "count_events is_ProductsPost
              (handleMultipleImageUpload e'
                 ((apply_events (handleMultipleImageUpload e u) u)
                    \<lparr>uploadedImages := uploadedImages u,
                     currentBarcodeForUpload := currentBarcodeForUpload u\<rparr>)) = 1"
    if a: "4 \<le> length (uploadedImages u) \<and> str_truthy (currentBarcodeForUpload u)
            \<and> str_truthy (token u) \<and> readAll e' (uploadedImages u) = Inr imgs
            \<and> extractor_ok e' \<and> \<not> first_upload_failed e' u"
  proof -
    define u' where "u' = (apply_events (handleMultipleImageUpload e u) u)
                    \<lparr>uploadedImages := uploadedImages u,
                     currentBarcodeForUpload := currentBarcodeForUpload u\<rparr>"
    obtain b where b: "currentBarcodeForUpload u = Some b" "b \<noteq> []"
      using a by (cases "currentBarcodeForUpload u") auto
    obtain first others where f: "uploadedImages u = first # others"
      using a by (cases "uploadedImages u") auto
    have im: "uploadedImages u' = uploadedImages u"
      and bc: "currentBarcodeForUpload u' = Some b"
      and tk: "token u' = token u"
      using b by (simp_all add: u'_def apply_events_token)
    have len: "4 \<le> length (uploadedImages u')"
      using a im by simp
    have rd: "readAll e' (uploadedImages u) = Inr imgs" and ok: "extractor_ok e'"
      using a by simp_all
    have up: "\<not> str_truthy (s3_error (fst (uploadFileToS3 e' first (''products/'' @ b))))"
      using a f b by (simp add: first_upload_failed_def)
    have "count_events is_ProductsPost (snd (handleMultipleImageUpload_try e' u b)) = 1"
      using try_upload_done[OF rd ok f up] a
      by (auto simp: count_events_append generateProductInfo_calls uploadFileToS3_calls)
    then have "count_events is_ProductsPost (handleMultipleImageUpload e' u') = 1"
      using handle_counts(3)[OF len bc b(2), of e'] try_reads[OF im tk, of e' b] by simp
    then show ?thesis
      by (simp add: u'_def)
  qed
  show ?thesis
    using none same retry by blast
qed

text \<open>
  The Gemini API cannot be reached for the extraction of the sample dialog: no create
  request, the sample store unchanged. With the images and the barcode back in the
  dialog and the API reachable, the create request is sent.
\<close>

theorem C5_failed_submission_creates_nothing_witness:
  "count_events is_ProductsPost (handleMultipleImageUpload env_extractor_down sample_ui) = 0
   \<and> catalog_after (now env_extractor_down)
        (handleMultipleImageUpload env_extractor_down sample_ui) sample_catalog = sample_catalog
   \<and> count_events is_ProductsPost
        (handleMultipleImageUpload sample_env
           ((apply_events (handleMultipleImageUpload env_extractor_down sample_ui) sample_ui)
              \<lparr>uploadedImages := uploadedImages sample_ui,
               currentBarcodeForUpload := currentBarcodeForUpload sample_ui\<rparr>)) = 1"
proof -
  have h: "\<not> extractor_ok env_extractor_down \<or> first_upload_failed env_extractor_down sample_ui"
    by code_simp
  have a: "4 \<le> length (uploadedImages sample_ui) \<and> str_truthy (currentBarcodeForUpload sample_ui)
            \<and> str_truthy (token sample_ui)
            \<and> readAll sample_env (uploadedImages sample_ui)
                = Inr [''data:image/jpeg;base64,front.jpg'', ''data:image/jpeg;base64,back.jpg'',
                       ''data:image/jpeg;base64,left.jpg'', ''data:image/jpeg;base64,right.jpg'']
            \<and> extractor_ok sample_env \<and> \<not> first_upload_failed sample_env sample_ui"
    by code_simp
  note T = C5_failed_submission_creates_nothing[OF h, where c = sample_catalog
      and t = "now env_extractor_down" and e' = sample_env]
  show ?thesis
    using T[THEN conjunct1] T[THEN conjunct2, THEN conjunct2, THEN conjunct1]
      T[THEN conjunct2, THEN conjunct2, THEN conjunct2, THEN mp, OF a]
    by simp
qed

text \<open>
  What the dialog looks like after the failed attempt: still open, its images and its
  barcode gone, so a second press on Submit there is refused for want of a barcode
  even after four images have been added again.
\<close>

lemma dialog_after_failed_attempt:
  "apply_events (handleMultipleImageUpload env_extractor_down sample_ui) sample_ui
     = sample_ui\<lparr>uploadedImages := [], currentBarcodeForUpload := None\<rparr>
   \<and> handleMultipleImageUpload sample_env
        ((apply_events (handleMultipleImageUpload env_extractor_down sample_ui) sample_ui)
           \<lparr>uploadedImages := uploadedImages sample_ui\<rparr>)
     = [Toast ''Error''
          (JStr ''No barcode associated with this upload. Please try scanning again.'') True]"
  by code_simp

section \<open>What the classifier's answer is read as\<close>

text \<open>Capture group 1 of the labelled expressions always takes part in a match.\<close>

lemma rx_run_Cap_captured: "(c, s') \<in> set (rx_run (Cap a) s) \<Longrightarrow> c \<noteq> None"
  by auto

lemma rx_run_Seq_captured:
  assumes "\<And>s1 c s'. (c, s') \<in> set (rx_run b s1) \<Longrightarrow> c \<noteq> None"
    and "(c, s') \<in> set (rx_run (Seq a b) s)"
  shows "c \<noteq> None"
proof -
  obtain c1 s1 c2 where "(c2, s') \<in> set (rx_run b s1)"
      and c: "c = (case c2 of None \<Rightarrow> c1 | Some g \<Rightarrow> Some g)"
    using assms(2) by auto
  then have "c2 \<noteq> None"
    using assms(1) by blast
  then show ?thesis
    using c by (cases c2) simp_all
qed

lemma rx_exec_captured:
  assumes "\<And>s1 c s'. (c, s') \<in> set (rx_run r s1) \<Longrightarrow> c \<noteq> None"
    and "rx_exec r s = Some (m, c)"
  shows "c \<noteq> None"
  using assms(2)
proof (induction s)
  case Nil
  then show ?case
    using assms(1)[of c _ "[]"]
    by (cases "rx_run r []") (auto split: prod.splits)
next
  case (Cons x xs)
  show ?case
  proof (cases "rx_run r (x # xs)")
    case Nil
    then show ?thesis
      using Cons by simp
  next
    case (Cons p ps)
    obtain c' rest where p: "p = (c', rest)"
      by (cases p)
    then have "(c', rest) \<in> set (rx_run r (x # xs))"
      using Cons by simp
    then have "c' \<noteq> None"
      using assms(1) by blast
    then show ?thesis
      using Cons p Cons.prems by simp
  qed
qed

lemma labelled_lines_captured:
  "(c, s') \<in> set (rx_run (RE_labelled_lines w) s) \<Longrightarrow> c \<noteq> None"
  unfolding RE_labelled_lines_def rx_lines_def
  by (erule rx_run_Seq_captured[rotated], erule rx_run_Seq_captured[rotated],
      erule rx_run_Seq_captured[rotated], erule rx_run_Cap_captured)

lemma labelled_lines_group:
  "rx_exec (RE_labelled_lines w) t = Some (m, c) \<Longrightarrow> c \<noteq> None"
  by (rule rx_exec_captured[of "RE_labelled_lines w"]) (auto dest: labelled_lines_captured)

lemma explanation_match_group:
  assumes "match_or (rx_exec (RE_labelled_lines w1) t)
             (match_or (rx_exec (RE_labelled_lines w2) t) (rx_exec (RE_labelled_lines w3) t))
           = Some (m, c)"
  shows "c \<noteq> None"
  using assms labelled_lines_group
  by (auto simp: match_or_def split: option.splits)

lemma extractGlutenInfoFromText_result:
  "\<exists>l x. extractGlutenInfoFromText t = Inr \<lparr>gi_glutenFreeStatus = l, gi_explanation = x\<rparr>
         \<and> l \<in> {''gluten-free'', ''contains-gluten'', ''unknown''} \<and> x \<noteq> []"
proof (cases "match_or (rx_exec (RE_labelled_lines ''explanation'') t)
                (match_or (rx_exec (RE_labelled_lines ''analysis'') t)
                   (rx_exec (RE_labelled_lines ''assessment'') t))")
  case None
  then show ?thesis
    by (simp add: extractGlutenInfoFromText_def trimmed_group_def Let_def)
next
  case (Some p)
  obtain m c where p: "p = (m, c)"
    by (cases p)
  then obtain g where "c = Some g"
    using explanation_match_group[of "''explanation''" t "''analysis''" "''assessment''" m c] Some
    by auto
  then show ?thesis
    using Some p
    by (simp add: extractGlutenInfoFromText_def trimmed_group_def Let_def)
qed

lemma rx_test_None: "\<not> rx_test r t \<Longrightarrow> rx_exec r t = None"
  by (cases "rx_exec r t") (auto simp: rx_test_def)

lemma extractGlutenInfoFromText_no_keywords:
  assumes "no_keywords t"
  shows "extractGlutenInfoFromText t =
           Inr \<lparr>gi_glutenFreeStatus = ''unknown'',
                gi_explanation = ''Unable to determine from AI response''\<rparr>"
  using assms
  by (simp add: no_keywords_def extractGlutenInfoFromText_def rx_test_None match_or_def
        trimmed_group_def Let_def)

lemma glutenInfo_of_fallback:
  assumes "no_parseable_json e t"
  shows "glutenInfo_of (JSON_parse e) t =
           (case extractGlutenInfoFromText t of
              Inl ex \<Rightarrow> Inl ex | Inr g \<Rightarrow> Inr (glutenInfo_js g))"
  using assms
  by (auto simp: no_parseable_json_def glutenInfo_of_def Let_def split: option.splits)

lemma checkGlutenStatus_result_200:
  assumes "str_truthy (GEMINI_API_KEY e)"
    and "reply_classifier e = Response 200 statusText (Inr d)"
    and "\<not> js_nullish d" and "responseText_of d = JStr t"
    and "glutenInfo_of (JSON_parse e) t = Inr gi" and "\<not> js_nullish gi"
  shows "checkGlutenStatus_result e =
           \<lparr>data = JObj [(''success'', JBool True),
                         (''glutenFreeStatus'',
                          js_or (js_prop gi ''glutenFreeStatus'') (JStr ''unknown'')),
                         (''explanation'',
                          js_or (js_prop gi ''explanation'') (JStr ''Unable to determine''))],
            error = JUndefined, status = 200\<rparr>"
  using assms
  by (simp add: checkGlutenStatus_result_def checkGlutenStatus_try_def response_ok_def)

text \<open>
  C10, as amended. The classifier answers HTTP 200 with a JSON body other than
  \<open>null\<close> whose first candidate text \<open>t\<close> is a string (or missing, then \<open>t\<close> is
  empty). Where \<open>t\<close> holds no JSON that \<open>JSON.parse\<close> accepts, \<open>checkGlutenStatus\<close>
  returns a success result whose label is one of the three, with an explanation that is
  not empty: \<open>unknown\<close> and \<open>Unable to determine from AI response\<close> where \<open>t\<close> has
  neither status keywords nor a marker of an explanation. Where \<open>t\<close> holds JSON that
  parses to a value \<open>v\<close> other than \<open>null\<close>, the label is whatever \<open>v\<close> gives
  for \<open>glutenFreeStatus\<close>, and \<open>unknown\<close> only if that is missing or empty.
\<close>

theorem C10_classifier_answer:
  assumes "str_truthy (GEMINI_API_KEY e)"
    and "reply_classifier e = Response 200 statusText (Inr d)"
    and "\<not> js_nullish d" and "responseText_of d = JStr t"
  shows "(no_parseable_json e t \<longrightarrow>
            (\<exists>l x. checkGlutenStatus_result e =
                      \<lparr>data = JObj [(''success'', JBool True), (''glutenFreeStatus'', JStr l),
                                    (''explanation'', JStr x)],
                       error = JUndefined, status = 200\<rparr>
                  \<and> l \<in> {''gluten-free'', ''contains-gluten'', ''unknown''} \<and> x \<noteq> []
                  \<and> (no_keywords t \<longrightarrow>
                        l = ''unknown'' \<and> x = ''Unable to determine from AI response'')))
       \<and> (jsonMatch_of t = Some (m0, g1)
            \<and> JSON_parse e (rx_remove_all RE_fence_marks m0) = Some v \<and> \<not> js_nullish v \<longrightarrow>
            checkGlutenStatus_result e =
              \<lparr>data = JObj [(''success'', JBool True),
                            (''glutenFreeStatus'',
                             js_or (js_prop v ''glutenFreeStatus'') (JStr ''unknown'')),
                            (''explanation'',
                             js_or (js_prop v ''explanation'') (JStr ''Unable to determine''))],
               error = JUndefined, status = 200\<rparr>)"
proof (intro conjI impI)
  assume np: "no_parseable_json e t"
  obtain l x where
    g: "extractGlutenInfoFromText t = Inr \<lparr>gi_glutenFreeStatus = l, gi_explanation = x\<rparr>"
    and l: "l \<in> {''gluten-free'', ''contains-gluten'', ''unknown''}" and x: "x \<noteq> []"
    using extractGlutenInfoFromText_result[of t] by blast
  have gi: "glutenInfo_of (JSON_parse e) t
              = Inr (JObj [(''glutenFreeStatus'', JStr l), (''explanation'', JStr x)])"
    using glutenInfo_of_fallback[OF np] g by (simp add: glutenInfo_js_def)
  have ln: "l \<noteq> []"
    using l by auto
  have r: "checkGlutenStatus_result e =
             \<lparr>data = JObj [(''success'', JBool True), (''glutenFreeStatus'', JStr l),
                           (''explanation'', JStr x)],
              error = JUndefined, status = 200\<rparr>"
    using checkGlutenStatus_result_200[OF assms gi] ln x by (simp add: js_or_def)
  have k: "l = ''unknown'' \<and> x = ''Unable to determine from AI response''" if "no_keywords t"
    using extractGlutenInfoFromText_no_keywords[OF that] g by simp
  show "\<exists>l x. checkGlutenStatus_result e =
                      \<lparr>data = JObj [(''success'', JBool True), (''glutenFreeStatus'', JStr l),
                                    (''explanation'', JStr x)],
                       error = JUndefined, status = 200\<rparr>
                  \<and> l \<in> {''gluten-free'', ''contains-gluten'', ''unknown''} \<and> x \<noteq> []
                  \<and> (no_keywords t \<longrightarrow>
                        l = ''unknown'' \<and> x = ''Unable to determine from AI response'')"
    using r l x k by blast
next
  assume a: "jsonMatch_of t = Some (m0, g1)
            \<and> JSON_parse e (rx_remove_all RE_fence_marks m0) = Some v \<and> \<not> js_nullish v"
  then have gi: "glutenInfo_of (JSON_parse e) t = Inr v"
    by (simp add: glutenInfo_of_def Let_def)
  show "checkGlutenStatus_result e =
              \<lparr>data = JObj [(''success'', JBool True),
                            (''glutenFreeStatus'',
                             js_or (js_prop v ''glutenFreeStatus'') (JStr ''unknown'')),
                            (''explanation'',
                             js_or (js_prop v ''explanation'') (JStr ''Unable to determine''))],
               error = JUndefined, status = 200\<rparr>"
    using checkGlutenStatus_result_200[OF assms gi] a by simp
qed

text \<open>
  The sample classifier answers \<open>I am not sure.\<close>: a success result, \<open>unknown\<close>.
  The classifier of \<open>env_maybe\<close> answers with JSON: a success result with that JSON's
  label.
\<close>

theorem C10_classifier_answer_witness:
  "checkGlutenStatus_result sample_env =
     \<lparr>data = JObj [(''success'', JBool True), (''glutenFreeStatus'', JStr ''unknown''),
                   (''explanation'', JStr ''Unable to determine from AI response'')],
      error = JUndefined, status = 200\<rparr>
   \<and> checkGlutenStatus_result env_maybe =
     \<lparr>data = JObj [(''success'', JBool True), (''glutenFreeStatus'', JStr ''maybe''),
                   (''explanation'', JStr ''Unable to determine'')],
      error = JUndefined, status = 200\<rparr>"
proof -
  have k: "str_truthy (GEMINI_API_KEY sample_env)" "str_truthy (GEMINI_API_KEY env_maybe)"
    by (simp_all add: sample_env_def env_maybe_def)
  have r1: "reply_classifier sample_env =
              Response 200 ''OK''
                (Inr (JObj [(''candidates'',
                             JArr [JObj [(''content'',
                                          JObj [(''parts'',
                                                 JArr [JObj [(''text'', JStr ''I am not sure.'')]])])]])]))"
    by (simp add: sample_env_def gemini_reply_def)
  have r2: "reply_classifier env_maybe =
              Response 200 ''OK''
                (Inr (JObj [(''candidates'',
                             JArr [JObj [(''content'',
                                          JObj [(''parts'',
                                                 JArr [JObj [(''text'', JStr json_maybe)]])])]])]))"
    by (simp add: env_maybe_def sample_env_def gemini_reply_def)
  have n: "\<not> js_nullish (JObj [(''candidates'',
                             JArr [JObj [(''content'',
                                          JObj [(''parts'', JArr [JObj [(''text'', JStr x)]])])]])])"
    for x
    by simp
  have t: "responseText_of (JObj [(''candidates'',
                             JArr [JObj [(''content'',
                                          JObj [(''parts'',
                                                 JArr [JObj [(''text'', JStr ''I am not sure.'')]])])]])])
             = JStr ''I am not sure.''"
    "responseText_of (JObj [(''candidates'',
                             JArr [JObj [(''content'',
                                          JObj [(''parts'',
                                                 JArr [JObj [(''text'', JStr json_maybe)]])])]])])
             = JStr json_maybe"
    by code_simp+
  have p1: "no_parseable_json sample_env ''I am not sure.''"
    and p2: "no_keywords ''I am not sure.''"
    by code_simp+
  have p3: "jsonMatch_of json_maybe = Some (json_maybe, None)
            \<and> JSON_parse env_maybe (rx_remove_all RE_fence_marks json_maybe)
                = Some (JObj [(''glutenFreeStatus'', JStr ''maybe'')])
            \<and> \<not> js_nullish (JObj [(''glutenFreeStatus'', JStr ''maybe'')])"
    by code_simp
  have "checkGlutenStatus_result sample_env =
     \<lparr>data = JObj [(''success'', JBool True), (''glutenFreeStatus'', JStr ''unknown''),
                   (''explanation'', JStr ''Unable to determine from AI response'')],
      error = JUndefined, status = 200\<rparr>"
    using C10_classifier_answer[OF k(1) r1 n t(1), THEN conjunct1, THEN mp, OF p1] p2
    by auto
  moreover have "checkGlutenStatus_result env_maybe =
     \<lparr>data = JObj [(''success'', JBool True), (''glutenFreeStatus'', JStr ''maybe''),
                   (''explanation'', JStr ''Unable to determine'')],
      error = JUndefined, status = 200\<rparr>"
    using C10_classifier_answer[OF k(2) r2 n t(2), THEN conjunct2, THEN mp, OF p3]
    by (simp add: js_or_def)
  ultimately show ?thesis
    by simp
qed

text \<open>
  The claim as written fails where the classifier answers with JSON whose label is none
  of the three: HTTP 200, the candidate text \<open>{"glutenFreeStatus":"maybe"}\<close>, and a
  success result with the label \<open>maybe\<close>.
\<close>

theorem C10_counterexample:
  "reply_classifier env_maybe = gemini_reply json_maybe
   \<and> JSON_parse env_maybe json_maybe = Some (JObj [(''glutenFreeStatus'', JStr ''maybe'')])
   \<and> checkGlutenStatus_result env_maybe =
       \<lparr>data = JObj [(''success'', JBool True), (''glutenFreeStatus'', JStr ''maybe''),
                     (''explanation'', JStr ''Unable to determine'')],
        error = JUndefined, status = 200\<rparr>
   \<and> ''maybe'' \<notin> {''gluten-free'', ''contains-gluten'', ''unknown''}"
  by code_simp

end
